theory Spec2Isabelle
  imports Complex_Main "HOL-Library.Multiset" "HOL-Library.AList"
begin

section \<open>The backlog domain service of atlas-ubmm\<close>

text \<open>
  A shallow embedding of the Go backlog service: the entity model
  (\<^verbatim>\<open>internal/domain/model/item.go\<close>), the domain events
  (\<^verbatim>\<open>internal/domain/event/events.go\<close>), the Postgres adapter
  (\<^verbatim>\<open>internal/adapters/db/postgres.go\<close>) read against the migration
  \<^verbatim>\<open>000001_initial_schema.up.sql\<close>, and the domain service
  (\<^verbatim>\<open>internal/domain/service/backlog_service.go\<close>).

  Conventions of the embedding.
  \<^item> A UUID is its canonical text (the service builds cache keys from \<^verbatim>\<open>id.String()\<close>).
    \<^verbatim>\<open>uuid.New()\<close> and \<^verbatim>\<open>time.Now()\<close> are inputs of the operation that calls them;
    one operation reads one clock value, counted in the microseconds that a
    \<^verbatim>\<open>TIMESTAMPTZ\<close> column keeps.
  \<^item> A string is a text in UTF-8, as the protobuf layer delivers it; it may contain the
    NUL character, which PostgreSQL refuses.
  \<^item> Go's \<^verbatim>\<open>int\<close> is \<open>int\<close>; the one place where the code computes with it, the sum of
    the three counts, wraps at 64 bits (\<open>go_int\<close>). The columns \<^verbatim>\<open>story_points\<close> and
    \<^verbatim>\<open>priority\<close> are 32-bit. \<^verbatim>\<open>float64\<close> is \<open>real\<close>: rounding is not modelled.
  \<^item> A Go map with string keys that is written to the store is an association list with
    one entry for a key; the order of the entries carries no meaning.
  \<^item> An operation returns its result together with the state it leaves, so that
    "nothing was written" is a statement about the returned state.
  \<^item> The stores answer every call: a call fails only for the reasons the adapter and the
    schema give (no row, a violated constraint). Connection failures and cache expiry are
    outside the model.
\<close>

subsection \<open>Entity model\<close>

type_synonym uuid = string
type_synonym time = int
type_synonym ItemType = string
type_synonym ItemStatus = string

definition uuid_Nil :: uuid where
  "uuid_Nil = ''00000000-0000-0000-0000-000000000000''"

definition ItemTypeEpic :: ItemType where "ItemTypeEpic = ''EPIC''"
definition ItemTypeFeature :: ItemType where "ItemTypeFeature = ''FEATURE''"
definition ItemTypeStory :: ItemType where "ItemTypeStory = ''STORY''"

definition ItemStatusNew :: ItemStatus where "ItemStatusNew = ''NEW''"
definition ItemStatusReady :: ItemStatus where "ItemStatusReady = ''READY''"
definition ItemStatusInProgress :: ItemStatus where "ItemStatusInProgress = ''IN_PROGRESS''"
definition ItemStatusDone :: ItemStatus where "ItemStatusDone = ''DONE''"
definition ItemStatusBlocked :: ItemStatus where "ItemStatusBlocked = ''BLOCKED''"

record BacklogItem =
  ID :: uuid
  Type :: ItemType
  ParentID :: "uuid option"
  Title :: string
  Description :: string
  StoryPoints :: int
  Status :: ItemStatus
  Priority :: int
  Assignee :: string
  Tags :: "string list"
  CreatedAt :: time
  UpdatedAt :: time
  ExternalIDs :: "(string \<times> string) list"

text \<open>
  Every \<^verbatim>\<open>errors.New\<close> and \<^verbatim>\<open>fmt.Errorf\<close> of the modelled code is one constructor.
  The spec's \<^emph>\<open>ValidationError\<close> is the group \<open>ErrTitleEmpty\<close>, \<open>ErrInvalidItemType\<close>,
  \<open>ErrInvalidItemStatus\<close>, \<open>ErrNegativeStoryPoints\<close>; its \<^emph>\<open>NotFound\<close>,
  \<^emph>\<open>InvalidRelationship\<close> and \<^emph>\<open>HasChildren\<close> are the constructors of these names.
\<close>

datatype error =
    ErrTitleEmpty                \<comment> \<open>"title cannot be empty"\<close>
  | ErrInvalidItemType           \<comment> \<open>"invalid item type"\<close>
  | ErrInvalidItemStatus         \<comment> \<open>"invalid item status"\<close>
  | ErrNegativeStoryPoints       \<comment> \<open>"story points cannot be negative"\<close>
  | ErrEpicParent                \<comment> \<open>"epic cannot have a parent"\<close>
  | ErrInvalidRelationship       \<comment> \<open>"invalid parent-child relationship"\<close>
  | ErrHasChildren               \<comment> \<open>"cannot delete item with children"\<close>
  | ErrNotFound                  \<comment> \<open>"backlog item not found"\<close>
  | ErrCreateFailed              \<comment> \<open>"failed to create backlog item": the INSERT was refused\<close>
  | ErrUpdateFailed              \<comment> \<open>"failed to update backlog item": the UPDATE was refused\<close>
  | ErrNoEvents                  \<comment> \<open>"no events found for item"\<close>
  | ErrCreatedEventNotFound      \<comment> \<open>"created event not found for item"\<close>
  | ErrUnknownEventType          \<comment> \<open>"unknown event type"\<close>
  | ErrStoreEventFailed          \<comment> \<open>"failed to store event": the INSERT was refused\<close>
  | ErrUpdatePriorityFailed      \<comment> \<open>"failed to update priority for item": the batch is rolled back\<close>

definition isValidationError :: "error \<Rightarrow> bool" where
  "isValidationError e \<longleftrightarrow>
     e = ErrTitleEmpty \<or> e = ErrInvalidItemType \<or> e = ErrInvalidItemStatus \<or>
     e = ErrNegativeStoryPoints"

definition isValidItemType :: "ItemType \<Rightarrow> bool" where
  "isValidItemType itemType \<longleftrightarrow>
     itemType = ItemTypeEpic \<or> itemType = ItemTypeFeature \<or> itemType = ItemTypeStory"

definition isValidItemStatus :: "ItemStatus \<Rightarrow> bool" where
  "isValidItemStatus status \<longleftrightarrow>
     status = ItemStatusNew \<or> status = ItemStatusReady \<or> status = ItemStatusInProgress \<or>
     status = ItemStatusDone \<or> status = ItemStatusBlocked"

definition NewBacklogItem ::
  "time \<Rightarrow> uuid \<Rightarrow> ItemType \<Rightarrow> string \<Rightarrow> string \<Rightarrow> error + BacklogItem" where
  "NewBacklogItem now newid itemType title description =
     (if title = [] then Inl ErrTitleEmpty
      else if \<not> isValidItemType itemType then Inl ErrInvalidItemType
      else Inr \<lparr> ID = newid, Type = itemType, ParentID = None, Title = title,
                 Description = description, StoryPoints = 0, Status = ItemStatusNew,
                 Priority = 0, Assignee = [], Tags = [], CreatedAt = now, UpdatedAt = now,
                 ExternalIDs = [] \<rparr>)"

definition UpdateTitle :: "time \<Rightarrow> string \<Rightarrow> BacklogItem \<Rightarrow> error + BacklogItem" where
  "UpdateTitle now title i =
     (if title = [] then Inl ErrTitleEmpty
      else Inr (i\<lparr> Title := title, UpdatedAt := now \<rparr>))"

definition UpdateDescription :: "time \<Rightarrow> string \<Rightarrow> BacklogItem \<Rightarrow> BacklogItem" where
  "UpdateDescription now description i = i\<lparr> Description := description, UpdatedAt := now \<rparr>"

definition UpdateStatus :: "time \<Rightarrow> ItemStatus \<Rightarrow> BacklogItem \<Rightarrow> error + BacklogItem" where
  "UpdateStatus now status i =
     (if \<not> isValidItemStatus status then Inl ErrInvalidItemStatus
      else Inr (i\<lparr> Status := status, UpdatedAt := now \<rparr>))"

definition UpdateStoryPoints :: "time \<Rightarrow> int \<Rightarrow> BacklogItem \<Rightarrow> error + BacklogItem" where
  "UpdateStoryPoints now points i =
     (if points < 0 then Inl ErrNegativeStoryPoints
      else Inr (i\<lparr> StoryPoints := points, UpdatedAt := now \<rparr>))"

definition UpdatePriority :: "time \<Rightarrow> int \<Rightarrow> BacklogItem \<Rightarrow> BacklogItem" where
  "UpdatePriority now priority i = i\<lparr> Priority := priority, UpdatedAt := now \<rparr>"

definition UpdateParent :: "time \<Rightarrow> uuid option \<Rightarrow> BacklogItem \<Rightarrow> error + BacklogItem" where
  "UpdateParent now parentID i =
     (if parentID \<noteq> None \<and> Type i = ItemTypeEpic then Inl ErrEpicParent
      else Inr (i\<lparr> ParentID := parentID, UpdatedAt := now \<rparr>))"

definition AddTag :: "time \<Rightarrow> string \<Rightarrow> BacklogItem \<Rightarrow> BacklogItem" where
  "AddTag now tag i =
     (if tag \<in> set (Tags i) then i
      else i\<lparr> Tags := Tags i @ [tag], UpdatedAt := now \<rparr>)"

definition BacklogItem_SetExternalID ::
  "time \<Rightarrow> string \<Rightarrow> string \<Rightarrow> BacklogItem \<Rightarrow> BacklogItem" where
  "BacklogItem_SetExternalID now system externalID i =
     i\<lparr> ExternalIDs := AList.update system externalID (ExternalIDs i), UpdatedAt := now \<rparr>"

subsection \<open>Metrics helpers of the service\<close>

text \<open>A Go map read at a missing key gives the zero value.\<close>

definition count_of :: "(ItemType \<rightharpoonup> int) \<Rightarrow> ItemType \<Rightarrow> int" where
  "count_of sizeCounts k = (case sizeCounts k of None \<Rightarrow> 0 | Some n \<Rightarrow> n)"

text \<open>
  The value of a Go \<^verbatim>\<open>int\<close> computation whose exact result is \<open>x\<close>: 64-bit two's
  complement, as on the platforms the service is built for.
\<close>

definition go_int :: "int \<Rightarrow> int" where
  "go_int x = (x + 2 ^ 63) mod 2 ^ 64 - 2 ^ 63"

definition abs_float :: "real \<Rightarrow> real" where
  "abs_float x = (if x < 0 then - x else x)"

definition calculateIcebergRatio :: "(ItemType \<rightharpoonup> int) \<Rightarrow> real" where
  "calculateIcebergRatio sizeCounts =
     (let total = go_int (go_int (count_of sizeCounts ItemTypeEpic
                                    + count_of sizeCounts ItemTypeFeature)
                          + count_of sizeCounts ItemTypeStory)
      in if total = 0 then 0
         else
           let epicRatio = real_of_int (count_of sizeCounts ItemTypeEpic) / real_of_int total;
               featureRatio = real_of_int (count_of sizeCounts ItemTypeFeature) / real_of_int total;
               storyRatio = real_of_int (count_of sizeCounts ItemTypeStory) / real_of_int total;
               deviation = abs_float (epicRatio - 33 / 100) + abs_float (featureRatio - 33 / 100)
                           + abs_float (storyRatio - 33 / 100)
           in 1 - deviation / 2)"

definition determineHealthStatus :: "(ItemType \<rightharpoonup> int) \<Rightarrow> int \<Rightarrow> real \<Rightarrow> string" where
  "determineHealthStatus sizeCounts wipCount leadTime =
     (let totalItems = go_int (go_int (count_of sizeCounts ItemTypeEpic
                                         + count_of sizeCounts ItemTypeFeature)
                               + count_of sizeCounts ItemTypeStory)
      in if totalItems > 150 then ''AT_RISK''
         else if wipCount > 20 \<or> leadTime > 60 then ''WARNING''
         else if totalItems \<le> 100 \<and> wipCount \<le> 10 \<and> leadTime \<le> 30 then ''HEALTHY''
         else ''AVERAGE'')"

text \<open>The map that \<^verbatim>\<open>GetBacklogSize\<close> returns for given counts of the three types.\<close>

definition size_counts :: "int \<Rightarrow> int \<Rightarrow> int \<Rightarrow> (ItemType \<rightharpoonup> int)" where
  "size_counts e f s =
     [ItemTypeEpic \<mapsto> e, ItemTypeFeature \<mapsto> f, ItemTypeStory \<mapsto> s]"

subsection \<open>Domain events\<close>

record Event =
  ev_ID :: uuid
  ev_Type :: string
  ev_Timestamp :: time
  ev_Version :: int

definition EventTypeItemCreated :: string where "EventTypeItemCreated = ''ITEM_CREATED''"
definition EventTypeItemUpdated :: string where "EventTypeItemUpdated = ''ITEM_UPDATED''"
definition EventTypeItemDeleted :: string where "EventTypeItemDeleted = ''ITEM_DELETED''"
definition EventTypeItemsReordered :: string where "EventTypeItemsReordered = ''ITEMS_REORDERED''"
definition EventTypeExternalIDSet :: string where "EventTypeExternalIDSet = ''EXTERNAL_ID_SET''"

datatype domain_event =
    ItemCreatedEvent Event uuid BacklogItem
  | ItemUpdatedEvent Event uuid BacklogItem
  | ItemDeletedEvent Event uuid BacklogItem
  | ItemsReorderedEvent Event "(uuid \<times> int) list"
  | ExternalIDSetEvent Event uuid string string

definition NewBaseEvent :: "time \<Rightarrow> uuid \<Rightarrow> string \<Rightarrow> Event" where
  "NewBaseEvent now evid eventType =
     \<lparr> ev_ID = evid, ev_Type = eventType, ev_Timestamp = now, ev_Version = 1 \<rparr>"

definition NewItemCreatedEvent :: "time \<Rightarrow> uuid \<Rightarrow> uuid \<Rightarrow> BacklogItem \<Rightarrow> domain_event" where
  "NewItemCreatedEvent now evid itemID item =
     ItemCreatedEvent (NewBaseEvent now evid EventTypeItemCreated) itemID item"

definition NewItemUpdatedEvent :: "time \<Rightarrow> uuid \<Rightarrow> uuid \<Rightarrow> BacklogItem \<Rightarrow> domain_event" where
  "NewItemUpdatedEvent now evid itemID item =
     ItemUpdatedEvent (NewBaseEvent now evid EventTypeItemUpdated) itemID item"

definition NewItemDeletedEvent :: "time \<Rightarrow> uuid \<Rightarrow> uuid \<Rightarrow> BacklogItem \<Rightarrow> domain_event" where
  "NewItemDeletedEvent now evid itemID item =
     ItemDeletedEvent (NewBaseEvent now evid EventTypeItemDeleted) itemID item"

definition NewItemsReorderedEvent :: "time \<Rightarrow> uuid \<Rightarrow> (uuid \<times> int) list \<Rightarrow> domain_event" where
  "NewItemsReorderedEvent now evid itemPriorities =
     ItemsReorderedEvent (NewBaseEvent now evid EventTypeItemsReordered) itemPriorities"

definition NewExternalIDSetEvent ::
  "time \<Rightarrow> uuid \<Rightarrow> uuid \<Rightarrow> string \<Rightarrow> string \<Rightarrow> domain_event" where
  "NewExternalIDSetEvent now evid itemID system externalID =
     ExternalIDSetEvent (NewBaseEvent now evid EventTypeExternalIDSet) itemID system externalID"

text \<open>
  \<^verbatim>\<open>fmt.Sprintf("%T", event)\<close> for the pointer to an event struct of package \<^verbatim>\<open>event\<close>.
\<close>

fun go_type_name :: "domain_event \<Rightarrow> string" where
  "go_type_name (ItemCreatedEvent _ _ _) = ''*event.ItemCreatedEvent''"
| "go_type_name (ItemUpdatedEvent _ _ _) = ''*event.ItemUpdatedEvent''"
| "go_type_name (ItemDeletedEvent _ _ _) = ''*event.ItemDeletedEvent''"
| "go_type_name (ItemsReorderedEvent _ _) = ''*event.ItemsReorderedEvent''"
| "go_type_name (ExternalIDSetEvent _ _ _ _) = ''*event.ExternalIDSetEvent''"

subsection \<open>The relational store\<close>

text \<open>
  A table is the list of its rows in insertion order. A row of \<^verbatim>\<open>backlog_items\<close> is a
  \<open>BacklogItem\<close>; a row of \<^verbatim>\<open>events\<close> keeps the event it was written from in place of
  its JSON text (marshalling followed by unmarshalling gives the fields back).
\<close>

record event_row =
  row_id :: uuid
  row_event_type :: string
  row_item_id :: "uuid option"
  row_payload :: domain_event
  row_created_at :: time

text \<open>
  \<^verbatim>\<open>trim(title)\<close> of PostgreSQL with no character list removes spaces (U+0020), and only
  spaces, from both ends.
\<close>

definition pg_trim :: "string \<Rightarrow> string" where
  "pg_trim s = rev (dropWhile (\<lambda>c. c = CHR '' '') (rev (dropWhile (\<lambda>c. c = CHR '' '') s)))"

text \<open>
  What PostgreSQL accepts as the value of a parameter: a text without the NUL character, a
  32-bit number for an \<^verbatim>\<open>INTEGER\<close> column, a JSON text without an escaped NUL for a
  \<^verbatim>\<open>JSONB\<close> column, a label of the type for an enum column.
\<close>

definition pg_text :: "string \<Rightarrow> bool" where
  "pg_text t \<longleftrightarrow> CHR 0x00 \<notin> set t"

definition pg_int4 :: "int \<Rightarrow> bool" where
  "pg_int4 n \<longleftrightarrow> - 2147483648 \<le> n \<and> n \<le> 2147483647"

definition pg_jsonb_object :: "(string \<times> string) list \<Rightarrow> bool" where
  "pg_jsonb_object kvs \<longleftrightarrow> (\<forall>kv \<in> set kvs. pg_text (fst kv) \<and> pg_text (snd kv))"

definition item_params_ok :: "BacklogItem \<Rightarrow> bool" where
  "item_params_ok r \<longleftrightarrow>
     isValidItemType (Type r) \<and> isValidItemStatus (Status r) \<and>
     pg_text (Title r) \<and> pg_text (Description r) \<and> pg_text (Assignee r) \<and>
     (\<forall>tag \<in> set (Tags r). pg_text tag) \<and>
     pg_int4 (StoryPoints r) \<and> pg_int4 (Priority r) \<and> pg_jsonb_object (ExternalIDs r)"

text \<open>
  The trigger \<^verbatim>\<open>validate_backlog_item_parent_child\<close>, fired before an insert and before an
  update that sets \<^verbatim>\<open>parent_id\<close> or \<^verbatim>\<open>type\<close> when the new \<^verbatim>\<open>parent_id\<close> is not null: it
  reads the parent's type from the table as it is before the statement and raises unless
  the pair is EPIC over FEATURE or FEATURE over STORY (a parent that is not there gives a
  null type and the exception).
\<close>

definition validate_parent_child_relationship :: "BacklogItem list \<Rightarrow> BacklogItem \<Rightarrow> bool" where
  "validate_parent_child_relationship tbl new =
     (case ParentID new of
        None \<Rightarrow> True
      | Some parent_id \<Rightarrow>
          (case find (\<lambda>r. ID r = parent_id) tbl of
             None \<Rightarrow> False
           | Some parent \<Rightarrow>
               (Type parent = ''EPIC'' \<and> Type new = ''FEATURE'') \<or>
               (Type parent = ''FEATURE'' \<and> Type new = ''STORY'')))"

text \<open>
  The checks of \<^verbatim>\<open>backlog_items\<close> on a row that is written, against the table before the
  statement: the trigger above (which covers the foreign key of \<^verbatim>\<open>parent_id\<close>, a new row
  not being its own parent), \<^verbatim>\<open>backlog_items_title_not_empty\<close> and
  \<^verbatim>\<open>backlog_items_story_points_not_negative\<close>.
\<close>

definition row_constraints :: "BacklogItem list \<Rightarrow> BacklogItem \<Rightarrow> bool" where
  "row_constraints tbl r \<longleftrightarrow>
     validate_parent_child_relationship tbl r \<and>
     length (pg_trim (Title r)) > 0 \<and> StoryPoints r \<ge> 0"

definition repo_Create :: "BacklogItem list \<Rightarrow> BacklogItem \<Rightarrow> error + BacklogItem list" where
  "repo_Create tbl item =
     (if \<not> item_params_ok item \<or> ID item \<in> set (map ID tbl) \<or> \<not> row_constraints tbl item
      then Inl ErrCreateFailed
      else Inr (tbl @ [item]))"

definition repo_GetByID :: "BacklogItem list \<Rightarrow> uuid \<Rightarrow> error + BacklogItem" where
  "repo_GetByID tbl itemID =
     (case find (\<lambda>r. ID r = itemID) tbl of None \<Rightarrow> Inl ErrNotFound | Some r \<Rightarrow> Inr r)"

text \<open>
  \<^verbatim>\<open>Update\<close> writes every column but \<^verbatim>\<open>id\<close> and \<^verbatim>\<open>created_at\<close>; the trigger
  \<^verbatim>\<open>update_backlog_items_updated_at\<close> then sets \<^verbatim>\<open>updated_at\<close> to the clock. A parameter
  that PostgreSQL does not accept fails the statement before any row is looked at; no row
  affected is "backlog item not found".
\<close>

definition repo_Update ::
  "time \<Rightarrow> BacklogItem list \<Rightarrow> BacklogItem \<Rightarrow> error + BacklogItem list" where
  "repo_Update now tbl item =
     (if \<not> item_params_ok item then Inl ErrUpdateFailed
      else if ID item \<notin> set (map ID tbl) then Inl ErrNotFound
      else if \<not> row_constraints tbl item then Inl ErrUpdateFailed
      else Inr (map (\<lambda>r. if ID r = ID item
                            then item\<lparr> CreatedAt := CreatedAt r, UpdatedAt := now \<rparr>
                            else r) tbl))"

text \<open>
  \<^verbatim>\<open>Delete\<close> removes the row; \<^verbatim>\<open>ON DELETE SET NULL\<close> clears \<^verbatim>\<open>parent_id\<close> of the rows
  that referred to it (an update, so the \<^verbatim>\<open>updated_at\<close> trigger fires), and
  \<^verbatim>\<open>ON DELETE CASCADE\<close> removes the item's rows of \<^verbatim>\<open>events\<close>.
\<close>

definition repo_Delete ::
  "time \<Rightarrow> BacklogItem list \<Rightarrow> event_row list \<Rightarrow> uuid
     \<Rightarrow> error + (BacklogItem list \<times> event_row list)" where
  "repo_Delete now tbl evs itemID =
     (if itemID \<notin> set (map ID tbl) then Inl ErrNotFound
      else Inr (map (\<lambda>r. if ParentID r = Some itemID
                            then r\<lparr> ParentID := None, UpdatedAt := now \<rparr> else r)
                    (filter (\<lambda>r. ID r \<noteq> itemID) tbl),
                filter (\<lambda>e. row_item_id e \<noteq> Some itemID) evs))"

definition repo_GetChildren :: "BacklogItem list \<Rightarrow> uuid \<Rightarrow> BacklogItem list" where
  "repo_GetChildren tbl parentID =
     sort_key Priority (filter (\<lambda>r. ParentID r = Some parentID) tbl)"

text \<open>
  \<^verbatim>\<open>UpdatePriorities\<close>: one transaction with one update for each entry of the map. An
  update that fails (a priority that is no 32-bit number) rolls the whole batch back; an
  entry whose ID has no row changes nothing.
\<close>

definition repo_UpdatePriorities ::
  "time \<Rightarrow> BacklogItem list \<Rightarrow> (uuid \<times> int) list \<Rightarrow> error + BacklogItem list" where
  "repo_UpdatePriorities now tbl itemPriorities =
     (if \<exists>entry \<in> set itemPriorities. \<not> pg_int4 (snd entry) then Inl ErrUpdatePriorityFailed
      else Inr (map (\<lambda>r. case map_of itemPriorities (ID r) of
                            None \<Rightarrow> r
                          | Some priority \<Rightarrow> r\<lparr> Priority := priority, UpdatedAt := now \<rparr>)
                    tbl))"

text \<open>The texts inside the JSON of an event, which becomes the \<^verbatim>\<open>JSONB\<close> payload.\<close>

definition item_json_ok :: "BacklogItem \<Rightarrow> bool" where
  "item_json_ok r \<longleftrightarrow>
     pg_text (Type r) \<and> pg_text (Status r) \<and>
     pg_text (Title r) \<and> pg_text (Description r) \<and> pg_text (Assignee r) \<and>
     (\<forall>tag \<in> set (Tags r). pg_text tag) \<and> pg_jsonb_object (ExternalIDs r)"

fun event_json_ok :: "domain_event \<Rightarrow> bool" where
  "event_json_ok (ItemCreatedEvent _ _ item) = item_json_ok item"
| "event_json_ok (ItemUpdatedEvent _ _ item) = item_json_ok item"
| "event_json_ok (ItemDeletedEvent _ _ item) = item_json_ok item"
| "event_json_ok (ItemsReorderedEvent _ _) = True"
| "event_json_ok (ExternalIDSetEvent _ _ system externalID) =
     (pg_text system \<and> pg_text externalID)"

text \<open>
  \<^verbatim>\<open>StoreEvent\<close> asks the event for \<^verbatim>\<open>GetID\<close>, \<^verbatim>\<open>GetType\<close>, \<^verbatim>\<open>GetTimestamp\<close> and
  \<^verbatim>\<open>GetItemID\<close> by type assertion. No event struct of \<^verbatim>\<open>events.go\<close> has any of these
  methods, so each assertion fails and the other branch runs: the row gets a new UUID, the
  Go name of the event's type, the clock, and no item ID. The insert is refused for a UUID
  that is in the table and for a payload that is no \<^verbatim>\<open>JSONB\<close>.
\<close>

definition StoreEvent ::
  "time \<Rightarrow> uuid \<Rightarrow> event_row list \<Rightarrow> domain_event \<Rightarrow> error + event_row list" where
  "StoreEvent now rowid evs e =
     (let row = \<lparr> row_id = rowid, row_event_type = go_type_name e, row_item_id = None,
                   row_payload = e, row_created_at = now \<rparr>
      in if row_id row \<in> set (map row_id evs) \<or> \<not> event_json_ok e
         then Inl ErrStoreEventFailed
         else Inr (evs @ [row]))"

text \<open>
  \<^verbatim>\<open>GetEventsByItemID\<close>: the rows of the item by \<^verbatim>\<open>created_at\<close> ascending (rows of equal
  time in insertion order), each decoded by the switch over its type column, which has no
  case for \<^verbatim>\<open>ITEMS_REORDERED\<close>.
\<close>

definition decode_event :: "event_row \<Rightarrow> error + domain_event" where
  "decode_event r =
     (if row_event_type r = EventTypeItemCreated \<or> row_event_type r = EventTypeItemUpdated \<or>
         row_event_type r = EventTypeItemDeleted \<or> row_event_type r = EventTypeExternalIDSet
      then Inr (row_payload r)
      else Inl ErrUnknownEventType)"

fun decode_rows :: "event_row list \<Rightarrow> error + domain_event list" where
  "decode_rows [] = Inr []"
| "decode_rows (r # rs) =
     (case decode_event r of
        Inl e \<Rightarrow> Inl e
      | Inr ev \<Rightarrow> (case decode_rows rs of Inl e \<Rightarrow> Inl e | Inr evs \<Rightarrow> Inr (ev # evs)))"

definition GetEventsByItemID :: "event_row list \<Rightarrow> uuid \<Rightarrow> error + domain_event list" where
  "GetEventsByItemID evs itemID =
     decode_rows (sort_key row_created_at (filter (\<lambda>r. row_item_id r = Some itemID) evs))"

text \<open>The first loop of \<^verbatim>\<open>ReplayEvents\<close>: the item of the first created event.\<close>

fun find_created :: "domain_event list \<Rightarrow> BacklogItem option" where
  "find_created [] = None"
| "find_created (ItemCreatedEvent _ _ item # _) = Some item"
| "find_created (_ # es) = find_created es"

text \<open>The second loop: every event of the list, from its start, applied to the item.\<close>

fun apply_events :: "time \<Rightarrow> domain_event list \<Rightarrow> BacklogItem \<Rightarrow> BacklogItem" where
  "apply_events now [] item = item"
| "apply_events now (ItemUpdatedEvent _ _ snapshot # es) item = apply_events now es snapshot"
| "apply_events now (ExternalIDSetEvent _ _ system externalID # es) item =
     apply_events now es (BacklogItem_SetExternalID now system externalID item)"
| "apply_events now (_ # es) item = apply_events now es item"

definition ReplayEvents :: "time \<Rightarrow> event_row list \<Rightarrow> uuid \<Rightarrow> error + BacklogItem" where
  "ReplayEvents now evs itemID =
     (case GetEventsByItemID evs itemID of
        Inl e \<Rightarrow> Inl e
      | Inr events \<Rightarrow>
          if length events = 0 then Inl ErrNoEvents
          else (case find_created events of
                  None \<Rightarrow> Inl ErrCreatedEventNotFound
                | Some item \<Rightarrow> Inr (apply_events now events item)))"

subsection \<open>The domain service\<close>

record BacklogMetrics =
  TotalItems :: int
  EpicCount :: int
  FeatureCount :: int
  StoryCount :: int
  AverageAge :: real
  WIPCount :: int
  LeadTimeDays :: real
  ThroughputLast30Days :: int
  IcebergRatio :: real
  HealthStatus :: string

text \<open>
  What a \<^verbatim>\<open>CacheProvider\<close> holds under a key: the value that was set, with its Go type, so
  that the type assertion a reader makes on it can succeed. (A provider that gives back
  untyped JSON holds \<open>CachedOther\<close> everywhere.)
\<close>

datatype cache_value =
    CachedItem BacklogItem
  | CachedChildren "BacklogItem list"
  | CachedList "BacklogItem list" int
  | CachedMetrics BacklogMetrics
  | CachedOther

record service_state =
  backlog_items :: "BacklogItem list"
  events :: "event_row list"
  cache :: "string \<rightharpoonup> cache_value"
  published :: "(string \<times> domain_event) list"

record CreateItemRequest =
  req_Type :: ItemType
  req_Title :: string
  req_Description :: string
  req_ParentID :: "uuid option"
  req_StoryPoints :: int
  req_Tags :: "string list"
  req_Assignee :: string

record UpdateItemRequest =
  upd_Title :: "string option"
  upd_Description :: "string option"
  upd_Status :: "ItemStatus option"
  upd_ParentID :: "uuid option"
  upd_StoryPoints :: "int option"
  upd_Priority :: "int option"
  upd_Assignee :: "string option"
  upd_Tags :: "string list option"

record ReorderRequest =
  ItemID :: uuid
  NewPriority :: int

text \<open>The answers of the \<^verbatim>\<open>MetricsRepository\<close> port to the five queries of \<^verbatim>\<open>GetMetrics\<close>.\<close>

record metrics_answers =
  GetBacklogSize :: "ItemType \<rightharpoonup> int"
  GetItemAge :: "(ItemType \<times> real) list"
  GetWIPCounts :: int
  GetLeadTime :: real
  GetThroughput :: int

definition isValidParentChild :: "ItemType \<Rightarrow> ItemType \<Rightarrow> bool" where
  "isValidParentChild parentType childType =
     (if parentType = ItemTypeEpic \<and> childType = ItemTypeFeature then True
      else if parentType = ItemTypeFeature \<and> childType = ItemTypeStory then True
      else False)"

definition cache_Delete :: "string \<Rightarrow> service_state \<Rightarrow> service_state" where
  "cache_Delete key s = s\<lparr> cache := (cache s)(key := None) \<rparr>"

definition cache_Set :: "string \<Rightarrow> cache_value \<Rightarrow> service_state \<Rightarrow> service_state" where
  "cache_Set key v s = s\<lparr> cache := (cache s)(key \<mapsto> v) \<rparr>"

definition invalidateListCache :: "service_state \<Rightarrow> service_state" where
  "invalidateListCache s = cache_Delete ''metrics'' (cache_Delete ''list:all'' s)"

text \<open>
  A failed \<^verbatim>\<open>StoreEvent\<close> is logged and the operation goes on. The UUID of the event row
  is one more input of the operation.
\<close>

definition store_event ::
  "time \<Rightarrow> uuid \<Rightarrow> domain_event \<Rightarrow> service_state \<Rightarrow> service_state" where
  "store_event now rowid e s =
     (case StoreEvent now rowid (events s) e of
        Inl _ \<Rightarrow> s
      | Inr evs \<Rightarrow> s\<lparr> events := evs \<rparr>)"

definition Publish :: "string \<Rightarrow> domain_event \<Rightarrow> service_state \<Rightarrow> service_state" where
  "Publish topic e s = s\<lparr> published := published s @ [(topic, e)] \<rparr>"

text \<open>The steps of \<^verbatim>\<open>CreateItem\<close> between \<^verbatim>\<open>NewBacklogItem\<close> and \<^verbatim>\<open>repo.Create\<close>.\<close>

definition create_set_parent ::
  "time \<Rightarrow> BacklogItem list \<Rightarrow> CreateItemRequest \<Rightarrow> BacklogItem \<Rightarrow> error + BacklogItem" where
  "create_set_parent now tbl req item =
     (case req_ParentID req of
        None \<Rightarrow> Inr item
      | Some parentID \<Rightarrow>
          (case UpdateParent now (Some parentID) item of
             Inl e \<Rightarrow> Inl e
           | Inr item' \<Rightarrow>
               (case repo_GetByID tbl parentID of
                  Inl e \<Rightarrow> Inl e
                | Inr parent \<Rightarrow>
                    if \<not> isValidParentChild (Type parent) (req_Type req)
                    then Inl ErrInvalidRelationship
                    else Inr item')))"

definition create_set_points ::
  "time \<Rightarrow> CreateItemRequest \<Rightarrow> BacklogItem \<Rightarrow> error + BacklogItem" where
  "create_set_points now req item =
     (if req_StoryPoints req > 0 then UpdateStoryPoints now (req_StoryPoints req) item
      else Inr item)"

definition build_item :: 
  "time \<Rightarrow> uuid \<Rightarrow> BacklogItem list \<Rightarrow> CreateItemRequest \<Rightarrow> error + BacklogItem" where
  "build_item now newid tbl req =
     (case NewBacklogItem now newid (req_Type req) (req_Title req) (req_Description req) of
        Inl e \<Rightarrow> Inl e
      | Inr item \<Rightarrow>
          (case create_set_parent now tbl req item of
             Inl e \<Rightarrow> Inl e
           | Inr item1 \<Rightarrow>
               (case create_set_points now req item1 of
                  Inl e \<Rightarrow> Inl e
                | Inr item2 \<Rightarrow> Inr (fold (AddTag now) (req_Tags req) item2))))"

definition CreateItem ::
  "time \<Rightarrow> uuid \<Rightarrow> uuid \<Rightarrow> uuid \<Rightarrow> service_state \<Rightarrow> CreateItemRequest
     \<Rightarrow> (error + BacklogItem) \<times> service_state" where
  "CreateItem now newid evid rowid s req =
     (case build_item now newid (backlog_items s) req of
        Inl e \<Rightarrow> (Inl e, s)
      | Inr item \<Rightarrow>
          (case repo_Create (backlog_items s) item of
             Inl e \<Rightarrow> (Inl e, s)
           | Inr tbl \<Rightarrow>
               let createEvent = NewItemCreatedEvent now evid (ID item) item
               in (Inr item,
                   invalidateListCache
                     (Publish ''backlog.item.created'' createEvent
                        (store_event now rowid createEvent (s\<lparr> backlog_items := tbl \<rparr>))))))"

text \<open>The type assertion of \<^verbatim>\<open>GetItem\<close> on what the cache returned.\<close>

fun cached_item :: "cache_value option \<Rightarrow> BacklogItem option" where
  "cached_item (Some (CachedItem item)) = Some item"
| "cached_item _ = None"

definition GetItem :: "service_state \<Rightarrow> uuid \<Rightarrow> (error + BacklogItem) \<times> service_state" where
  "GetItem s itemID =
     (let cacheKey = ''item:'' @ itemID
      in case cached_item (cache s cacheKey) of
           Some item \<Rightarrow> (Inr item, s)
         | None \<Rightarrow>
             (case repo_GetByID (backlog_items s) itemID of
                Inl e \<Rightarrow> (Inl e, s)
              | Inr item \<Rightarrow> (Inr item, cache_Set cacheKey (CachedItem item) s)))"

text \<open>The field-by-field part of \<^verbatim>\<open>UpdateItem\<close>, in the order of the source.\<close>

definition update_title :: "time \<Rightarrow> UpdateItemRequest \<Rightarrow> BacklogItem \<Rightarrow> error + BacklogItem" where
  "update_title now req item =
     (case upd_Title req of None \<Rightarrow> Inr item | Some title \<Rightarrow> UpdateTitle now title item)"

definition update_description :: "time \<Rightarrow> UpdateItemRequest \<Rightarrow> BacklogItem \<Rightarrow> BacklogItem" where
  "update_description now req item =
     (case upd_Description req of None \<Rightarrow> item | Some d \<Rightarrow> UpdateDescription now d item)"

definition update_status :: "time \<Rightarrow> UpdateItemRequest \<Rightarrow> BacklogItem \<Rightarrow> error + BacklogItem" where
  "update_status now req item =
     (case upd_Status req of None \<Rightarrow> Inr item | Some st \<Rightarrow> UpdateStatus now st item)"

definition update_points :: "time \<Rightarrow> UpdateItemRequest \<Rightarrow> BacklogItem \<Rightarrow> error + BacklogItem" where
  "update_points now req item =
     (case upd_StoryPoints req of None \<Rightarrow> Inr item | Some p \<Rightarrow> UpdateStoryPoints now p item)"

definition update_priority :: "time \<Rightarrow> UpdateItemRequest \<Rightarrow> BacklogItem \<Rightarrow> BacklogItem" where
  "update_priority now req item =
     (case upd_Priority req of None \<Rightarrow> item | Some p \<Rightarrow> UpdatePriority now p item)"

definition update_parent ::
  "time \<Rightarrow> BacklogItem list \<Rightarrow> UpdateItemRequest \<Rightarrow> BacklogItem \<Rightarrow> error + BacklogItem" where
  "update_parent now tbl req item =
     (case upd_ParentID req of
        None \<Rightarrow> Inr item
      | Some parentID \<Rightarrow>
          if parentID \<noteq> uuid_Nil then
            (case repo_GetByID tbl parentID of
               Inl e \<Rightarrow> Inl e
             | Inr parent \<Rightarrow>
                 if \<not> isValidParentChild (Type parent) (Type item)
                 then Inl ErrInvalidRelationship
                 else UpdateParent now (Some parentID) item)
          else UpdateParent now (Some parentID) item)"

definition update_assignee :: "UpdateItemRequest \<Rightarrow> BacklogItem \<Rightarrow> BacklogItem" where
  "update_assignee req item =
     (case upd_Assignee req of None \<Rightarrow> item | Some a \<Rightarrow> item\<lparr> Assignee := a \<rparr>)"

definition update_tags :: "time \<Rightarrow> UpdateItemRequest \<Rightarrow> BacklogItem \<Rightarrow> BacklogItem" where
  "update_tags now req item =
     (case upd_Tags req of
        None \<Rightarrow> item
      | Some tags \<Rightarrow> fold (AddTag now) tags (item\<lparr> Tags := [] \<rparr>))"

definition apply_updates ::
  "time \<Rightarrow> BacklogItem list \<Rightarrow> UpdateItemRequest \<Rightarrow> BacklogItem \<Rightarrow> error + BacklogItem" where
  "apply_updates now tbl req item =
     (case update_title now req item of
        Inl e \<Rightarrow> Inl e
      | Inr item1 \<Rightarrow>
          (case update_status now req (update_description now req item1) of
             Inl e \<Rightarrow> Inl e
           | Inr item2 \<Rightarrow>
               (case update_points now req item2 of
                  Inl e \<Rightarrow> Inl e
                | Inr item3 \<Rightarrow>
                    (case update_parent now tbl req (update_priority now req item3) of
                       Inl e \<Rightarrow> Inl e
                     | Inr item4 \<Rightarrow> Inr (update_tags now req (update_assignee req item4))))))"

definition UpdateItem ::
  "time \<Rightarrow> uuid \<Rightarrow> uuid \<Rightarrow> service_state \<Rightarrow> uuid \<Rightarrow> UpdateItemRequest
     \<Rightarrow> (error + BacklogItem) \<times> service_state" where
  "UpdateItem now evid rowid s itemID req =
     (case repo_GetByID (backlog_items s) itemID of
        Inl e \<Rightarrow> (Inl e, s)
      | Inr item0 \<Rightarrow>
          (case apply_updates now (backlog_items s) req item0 of
             Inl e \<Rightarrow> (Inl e, s)
           | Inr item \<Rightarrow>
               (case repo_Update now (backlog_items s) item of
                  Inl e \<Rightarrow> (Inl e, s)
                | Inr tbl \<Rightarrow>
                    let updateEvent = NewItemUpdatedEvent now evid (ID item) item
                    in (Inr item,
                        invalidateListCache
                          (cache_Delete (''item:'' @ itemID)
                             (Publish ''backlog.item.updated'' updateEvent
                                (store_event now rowid updateEvent (s\<lparr> backlog_items := tbl \<rparr>))))))))"

definition DeleteItem ::
  "time \<Rightarrow> uuid \<Rightarrow> uuid \<Rightarrow> service_state \<Rightarrow> uuid \<Rightarrow> error option \<times> service_state" where
  "DeleteItem now evid rowid s itemID =
     (case repo_GetByID (backlog_items s) itemID of
        Inl e \<Rightarrow> (Some e, s)
      | Inr item \<Rightarrow>
          if length (repo_GetChildren (backlog_items s) itemID) > 0 then (Some ErrHasChildren, s)
          else
            (case repo_Delete now (backlog_items s) (events s) itemID of
               Inl e \<Rightarrow> (Some e, s)
             | Inr (tbl, evs) \<Rightarrow>
                 let deleteEvent = NewItemDeletedEvent now evid (ID item) item
                 in (None,
                     invalidateListCache
                       (cache_Delete (''item:'' @ itemID)
                          (Publish ''backlog.item.deleted'' deleteEvent
                             (store_event now rowid deleteEvent
                                (s\<lparr> backlog_items := tbl, events := evs \<rparr>)))))))"

definition ReorderItems ::
  "time \<Rightarrow> uuid \<Rightarrow> uuid \<Rightarrow> service_state \<Rightarrow> ReorderRequest list
     \<Rightarrow> error option \<times> service_state" where
  "ReorderItems now evid rowid s reorderRequests =
     (if length reorderRequests = 0 then (None, s)
      else
        let itemPriorities =
              fold (\<lambda>req m. AList.update (ItemID req) (NewPriority req) m) reorderRequests []
        in (case repo_UpdatePriorities now (backlog_items s) itemPriorities of
              Inl e \<Rightarrow> (Some e, s)
            | Inr tbl \<Rightarrow>
                let reorderEvent = NewItemsReorderedEvent now evid itemPriorities
                in (None,
                    invalidateListCache
                      (Publish ''backlog.items.reordered'' reorderEvent
                         (store_event now rowid reorderEvent (s\<lparr> backlog_items := tbl \<rparr>))))))"

definition SetExternalID ::
  "time \<Rightarrow> uuid \<Rightarrow> uuid \<Rightarrow> service_state \<Rightarrow> uuid \<Rightarrow> string \<Rightarrow> string
     \<Rightarrow> error option \<times> service_state" where
  "SetExternalID now evid rowid s itemID system externalID =
     (case repo_GetByID (backlog_items s) itemID of
        Inl e \<Rightarrow> (Some e, s)
      | Inr item0 \<Rightarrow>
          let item = BacklogItem_SetExternalID now system externalID item0
          in (case repo_Update now (backlog_items s) item of
                Inl e \<Rightarrow> (Some e, s)
              | Inr tbl \<Rightarrow>
                  let externalIDEvent = NewExternalIDSetEvent now evid (ID item) system externalID
                  in (None,
                      cache_Delete (''item:'' @ itemID)
                        (Publish ''backlog.item.external_id.set'' externalIDEvent
                           (store_event now rowid externalIDEvent (s\<lparr> backlog_items := tbl \<rparr>))))))"




subsection \<open>Vocabulary of the statements and example data\<close>

text \<open>
  The number of active items as the code computes it, in 64 bits, and the exact sum of the
  three counts.
\<close>

definition total_items :: "(ItemType \<rightharpoonup> int) \<Rightarrow> int" where
  "total_items sizeCounts =
     go_int (go_int (count_of sizeCounts ItemTypeEpic + count_of sizeCounts ItemTypeFeature)
             + count_of sizeCounts ItemTypeStory)"

definition total_count :: "(ItemType \<rightharpoonup> int) \<Rightarrow> int" where
  "total_count sizeCounts =
     count_of sizeCounts ItemTypeEpic + count_of sizeCounts ItemTypeFeature
     + count_of sizeCounts ItemTypeStory"

text \<open>
  The iceberg ratio in the words of the spec (for a positive total), to compare the code
  with: the ideal share is one third, and the score is clamped to the unit interval.
\<close>

definition spec_icebergRatio :: "(ItemType \<rightharpoonup> int) \<Rightarrow> real" where
  "spec_icebergRatio sizeCounts =
     (let total = real_of_int (total_count sizeCounts);
          deviation = \<bar>real_of_int (count_of sizeCounts ItemTypeEpic) / total - 1 / 3\<bar>
                    + \<bar>real_of_int (count_of sizeCounts ItemTypeFeature) / total - 1 / 3\<bar>
                    + \<bar>real_of_int (count_of sizeCounts ItemTypeStory) / total - 1 / 3\<bar>
      in max 0 (min 1 (1 - deviation / 2)))"

text \<open>A small backlog: an epic, a feature under it and a story under the feature.\<close>

definition ex_item :: "uuid \<Rightarrow> ItemType \<Rightarrow> uuid option \<Rightarrow> BacklogItem" where
  "ex_item i ty parent =
     \<lparr> ID = i, Type = ty, ParentID = parent, Title = ''Checkout'', Description = [],
       StoryPoints = 3, Status = ItemStatusNew, Priority = 0, Assignee = [], Tags = [],
       CreatedAt = 0, UpdatedAt = 0, ExternalIDs = [] \<rparr>"

definition ex_state :: service_state where
  "ex_state =
     \<lparr> backlog_items = [ex_item ''e1'' ItemTypeEpic None,
                         ex_item ''f1'' ItemTypeFeature (Some ''e1''),
                         ex_item ''s1'' ItemTypeStory (Some ''f1'')],
       events = [],
       cache = [''metrics'' \<mapsto> CachedOther, ''list:all'' \<mapsto> CachedOther,
                ''item:s1'' \<mapsto> CachedItem (ex_item ''s1'' ItemTypeStory (Some ''f1''))],
       published = [] \<rparr>"

definition ex_request ::
  "ItemType \<Rightarrow> string \<Rightarrow> uuid option \<Rightarrow> int \<Rightarrow> string \<Rightarrow> CreateItemRequest" where
  "ex_request ty title parent points assignee =
     \<lparr> req_Type = ty, req_Title = title, req_Description = [], req_ParentID = parent,
       req_StoryPoints = points, req_Tags = [], req_Assignee = assignee \<rparr>"

definition ex_update :: "string option \<Rightarrow> int option \<Rightarrow> string option \<Rightarrow> UpdateItemRequest" where
  "ex_update title points assignee =
     \<lparr> upd_Title = title, upd_Description = None, upd_Status = None, upd_ParentID = None,
       upd_StoryPoints = points, upd_Priority = None, upd_Assignee = assignee,
       upd_Tags = None \<rparr>"

definition ex_reorder :: "ReorderRequest list" where
  "ex_reorder = [\<lparr> ItemID = ''s1'', NewPriority = 5 \<rparr>, \<lparr> ItemID = ''f1'', NewPriority = 3 \<rparr>]"

text \<open>Answers of the metrics queries, and a snapshot that a provider may hold with its type.\<close>

definition ex_answers :: "int \<Rightarrow> int \<Rightarrow> int \<Rightarrow> int \<Rightarrow> real \<Rightarrow> metrics_answers" where
  "ex_answers e f st wip lead =
     \<lparr> GetBacklogSize = size_counts e f st,
       GetItemAge = [(ItemTypeEpic, 4), (ItemTypeFeature, 2), (ItemTypeStory, 1)],
       GetWIPCounts = wip, GetLeadTime = lead, GetThroughput = 6 \<rparr>"

definition ex_snapshot :: BacklogMetrics where
  "ex_snapshot =
     \<lparr> TotalItems = 3, EpicCount = 1, FeatureCount = 1, StoryCount = 1, AverageAge = 2,
       WIPCount = 0, LeadTimeDays = 5, ThroughputLast30Days = 6, IcebergRatio = 199 / 200,
       HealthStatus = ''HEALTHY'' \<rparr>"

text \<open>
  An event table, not in time order: the history of the story (created at 10, updated at
  20 and at 30) and one row of the epic.
\<close>

definition ex_created_row :: event_row where
  "ex_created_row =
     \<lparr> row_id = ''v1'', row_event_type = EventTypeItemCreated, row_item_id = Some ''s1'',
       row_payload = ItemCreatedEvent (NewBaseEvent 10 ''v1'' EventTypeItemCreated) ''s1''
                       ((ex_item ''s1'' ItemTypeStory None)\<lparr> Tags := [''web''] \<rparr>),
       row_created_at = 10 \<rparr>"

definition ex_first_update_row :: event_row where
  "ex_first_update_row =
     \<lparr> row_id = ''v2'', row_event_type = EventTypeItemUpdated, row_item_id = Some ''s1'',
       row_payload = ItemUpdatedEvent (NewBaseEvent 20 ''v2'' EventTypeItemUpdated) ''s1''
                       ((ex_item ''s1'' ItemTypeStory None)
                          \<lparr> Title := ''Basket'', Assignee := ''ada'', Tags := [''web''] \<rparr>),
       row_created_at = 20 \<rparr>"

definition ex_second_update_row :: event_row where
  "ex_second_update_row =
     \<lparr> row_id = ''v3'', row_event_type = EventTypeItemUpdated, row_item_id = Some ''s1'',
       row_payload = ItemUpdatedEvent (NewBaseEvent 30 ''v3'' EventTypeItemUpdated) ''s1''
                       ((ex_item ''s1'' ItemTypeStory None)\<lparr> Title := ''Cart'', Priority := 7 \<rparr>),
       row_created_at = 30 \<rparr>"

definition ex_events :: "event_row list" where
  "ex_events =
     [ex_second_update_row, ex_created_row,
      \<lparr> row_id = ''v9'', row_event_type = EventTypeItemCreated, row_item_id = Some ''e1'',
        row_payload = ItemCreatedEvent (NewBaseEvent 15 ''v9'' EventTypeItemCreated) ''e1''
                        (ex_item ''e1'' ItemTypeEpic None),
        row_created_at = 15 \<rparr>,
      ex_first_update_row]"

section \<open>Properties\<close>

subsection \<open>Unfolding sets and projections\<close>

lemmas item_consts =
  ItemTypeEpic_def ItemTypeFeature_def ItemTypeStory_def
  ItemStatusNew_def ItemStatusReady_def ItemStatusInProgress_def
  ItemStatusDone_def ItemStatusBlocked_def

lemmas entity_defs =
  NewBacklogItem_def UpdateTitle_def UpdateDescription_def UpdateStatus_def
  UpdateStoryPoints_def UpdatePriority_def UpdateParent_def AddTag_def
  BacklogItem_SetExternalID_def isValidItemType_def isValidItemStatus_def

lemmas store_defs =
  pg_trim_def pg_text_def pg_int4_def pg_jsonb_object_def item_params_ok_def
  validate_parent_child_relationship_def row_constraints_def repo_Create_def
  repo_GetByID_def repo_Update_def repo_Delete_def repo_GetChildren_def
  repo_UpdatePriorities_def item_json_ok_def StoreEvent_def

lemmas event_defs =
  NewBaseEvent_def NewItemCreatedEvent_def NewItemUpdatedEvent_def NewItemDeletedEvent_def
  NewItemsReorderedEvent_def NewExternalIDSetEvent_def
  EventTypeItemCreated_def EventTypeItemUpdated_def EventTypeItemDeleted_def
  EventTypeItemsReordered_def EventTypeExternalIDSet_def

lemmas service_defs =
  isValidParentChild_def cache_Delete_def cache_Set_def invalidateListCache_def
  store_event_def Publish_def create_set_parent_def create_set_points_def build_item_def
  CreateItem_def GetItem_def update_title_def update_description_def update_status_def
  update_points_def update_priority_def update_parent_def update_assignee_def
  update_tags_def apply_updates_def UpdateItem_def DeleteItem_def ReorderItems_def
  SetExternalID_def

lemmas example_defs =
  ex_item_def ex_state_def ex_request_def ex_update_def ex_reorder_def
  ex_answers_def ex_snapshot_def
  ex_created_row_def ex_first_update_row_def ex_second_update_row_def ex_events_def

lemmas eval_defs =
  entity_defs store_defs event_defs service_defs example_defs item_consts Let_def

lemma store_event_proj [simp]:
  "backlog_items (store_event now rowid e s) = backlog_items s"
  "cache (store_event now rowid e s) = cache s"
  "published (store_event now rowid e s) = published s"
  by (simp_all add: store_event_def split: sum.splits)

lemma Publish_proj [simp]:
  "backlog_items (Publish t e s) = backlog_items s"
  "cache (Publish t e s) = cache s"
  "events (Publish t e s) = events s"
  by (simp_all add: Publish_def)

lemma cache_Delete_proj [simp]:
  "backlog_items (cache_Delete k s) = backlog_items s"
  "events (cache_Delete k s) = events s"
  "published (cache_Delete k s) = published s"
  "cache (cache_Delete k s) = (cache s)(k := None)"
  by (simp_all add: cache_Delete_def)

lemma cache_Set_proj [simp]:
  "backlog_items (cache_Set k v s) = backlog_items s"
  "events (cache_Set k v s) = events s"
  "published (cache_Set k v s) = published s"
  "cache (cache_Set k v s) = (cache s)(k \<mapsto> v)"
  by (simp_all add: cache_Set_def)

lemma invalidateListCache_proj [simp]:
  "backlog_items (invalidateListCache s) = backlog_items s"
  "events (invalidateListCache s) = events s"
  "published (invalidateListCache s) = published s"
  "cache (invalidateListCache s) = (cache s)(''list:all'' := None, ''metrics'' := None)"
  by (simp_all add: invalidateListCache_def)

subsection \<open>Reading rows\<close>

lemma find_ID_cases:
  "(find (\<lambda>r. ID r = itemID) tbl = None \<and> itemID \<notin> set (map ID tbl)) \<or>
   (\<exists>r. find (\<lambda>r. ID r = itemID) tbl = Some r \<and> r \<in> set tbl \<and> ID r = itemID)"
  by (induction tbl) auto

lemma find_fresh_append:
  "itemID \<notin> set (map ID tbl) \<Longrightarrow> ID item = itemID \<Longrightarrow>
   find (\<lambda>r. ID r = itemID) (tbl @ [item]) = Some item"
  by (induction tbl) auto

lemma repo_GetByID_NotFound:
  "repo_GetByID tbl itemID = Inl e \<longleftrightarrow> (e = ErrNotFound \<and> itemID \<notin> set (map ID tbl))"
  using find_ID_cases [of itemID tbl]
  by (auto simp: repo_GetByID_def split: option.splits)

lemma repo_GetByID_found:
  "repo_GetByID tbl itemID = Inr r \<Longrightarrow> r \<in> set tbl \<and> ID r = itemID"
  using find_ID_cases [of itemID tbl]
  by (auto simp: repo_GetByID_def split: option.splits)

lemma repo_GetByID_exists:
  "itemID \<in> set (map ID tbl) \<Longrightarrow> \<exists>r. repo_GetByID tbl itemID = Inr r"
  using find_ID_cases [of itemID tbl] by (auto simp: repo_GetByID_def)

lemma sort_key_empty: "sort_key f xs = [] \<longleftrightarrow> xs = []"
  by (metis length_sort length_0_conv)

lemma has_children_iff:
  "repo_GetChildren tbl itemID \<noteq> [] \<longleftrightarrow> (\<exists>r \<in> set tbl. ParentID r = Some itemID)"
  by (auto simp: repo_GetChildren_def sort_key_empty filter_empty_conv)

subsection \<open>Creating an item\<close>

lemma pg_trim_nonempty_iff:
  "pg_trim t \<noteq> [] \<longleftrightarrow> (\<exists>c \<in> set t. c \<noteq> CHR '' '')"
proof -
  have d: "(dropWhile P xs \<noteq> []) = (\<exists>x \<in> set xs. \<not> P x)" for P :: "char \<Rightarrow> bool" and xs
    by (induction xs) auto
  have k: "(\<exists>x \<in> set (dropWhile P xs). \<not> P x) = (\<exists>x \<in> set xs. \<not> P x)"
    for P :: "char \<Rightarrow> bool" and xs
    by (induction xs) auto
  show ?thesis
    by (simp add: pg_trim_def d k)
qed

lemma fold_AddTag_fields:
  "ID (fold (AddTag now) tags i) = ID i"
  "Type (fold (AddTag now) tags i) = Type i"
  "ParentID (fold (AddTag now) tags i) = ParentID i"
  "Title (fold (AddTag now) tags i) = Title i"
  "StoryPoints (fold (AddTag now) tags i) = StoryPoints i"
  "Status (fold (AddTag now) tags i) = Status i"
  "Priority (fold (AddTag now) tags i) = Priority i"
  "Assignee (fold (AddTag now) tags i) = Assignee i"
  "ExternalIDs (fold (AddTag now) tags i) = ExternalIDs i"
  "Description (fold (AddTag now) tags i) = Description i"
  by (induction tags arbitrary: i; simp add: AddTag_def)+

lemma fold_AddTag_Tags:
  "set (Tags (fold (AddTag now) tags i)) = set (Tags i) \<union> set tags"
  by (induction tags arbitrary: i) (auto simp: AddTag_def)

lemma build_item_fields:
  assumes "build_item now newid tbl req = Inr item"
  shows "ID item = newid" "Type item = req_Type req" "Title item = req_Title req"
    "Status item = ItemStatusNew" "Priority item = 0" "Assignee item = []"
    "ExternalIDs item = []" "isValidItemType (req_Type req)" "req_Title req \<noteq> []"
    "StoryPoints item \<ge> 0" "ParentID item = req_ParentID req"
    "req_Tags req = [] \<Longrightarrow> Tags item = []"
    "Description item = req_Description req"
    "set (Tags item) = set (req_Tags req)"
    "StoryPoints item \<le> max 0 (req_StoryPoints req)"
  using assms
  by (auto simp: build_item_def NewBacklogItem_def create_set_parent_def create_set_points_def
      UpdateParent_def UpdateStoryPoints_def fold_AddTag_fields fold_AddTag_Tags
      split: sum.splits if_splits option.splits)

lemma CreateItem_success:
  assumes "CreateItem now newid evid rowid s req = (Inr item, s')"
  shows "build_item now newid (backlog_items s) req = Inr item"
    "newid \<notin> set (map ID (backlog_items s))"
    "backlog_items s' = backlog_items s @ [item]"
    "cache s' = (cache s)(''list:all'' := None, ''metrics'' := None)"
    "row_constraints (backlog_items s) item"
  using assms
  by (auto simp: CreateItem_def repo_Create_def Let_def build_item_fields
      split: sum.splits if_splits)

text \<open>
  The store admits the row that \<^verbatim>\<open>CreateItem\<close> has built when the UUID is new, the title
  has a character other than a space, the texts of the request are without NUL, the story
  points are a 32-bit number and the trigger accepts the parent.
\<close>

lemma CreateItem_admitted:
  assumes b: "build_item now newid (backlog_items s) req = Inr item"
    and fresh: "newid \<notin> set (map ID (backlog_items s))"
    and title: "\<exists>c \<in> set (req_Title req). c \<noteq> CHR '' ''"
    and texts: "pg_text (req_Title req)" "pg_text (req_Description req)"
      "\<forall>tag \<in> set (req_Tags req). pg_text tag"
    and points: "req_StoryPoints req \<le> 2147483647"
    and parent: "validate_parent_child_relationship (backlog_items s) item"
  shows "\<exists>s'. CreateItem now newid evid rowid s req = (Inr item, s') \<and>
           backlog_items s' = backlog_items s @ [item]"
proof -
  note bf = build_item_fields [OF b]
  have "pg_int4 (StoryPoints item)"
    using bf(10,15) points by (auto simp: pg_int4_def)
  then have p: "item_params_ok item"
    using bf texts by (simp add: item_params_ok_def isValidItemStatus_def pg_text_def
        pg_int4_def pg_jsonb_object_def)
  have r: "row_constraints (backlog_items s) item"
    using parent title bf(3,10) by (simp add: row_constraints_def pg_trim_nonempty_iff)
  have "repo_Create (backlog_items s) item = Inr (backlog_items s @ [item])"
    using p r fresh bf(1) by (simp add: repo_Create_def)
  then show ?thesis
    using b by (simp add: CreateItem_def Let_def)
qed

lemma build_item_without_parent:
  assumes "isValidItemType (req_Type req)" and "req_Title req \<noteq> []"
    and "req_ParentID req = None"
  shows "\<exists>item. build_item now newid tbl req = Inr item"
  using assms
  by (cases "0 < req_StoryPoints req")
     (simp_all add: build_item_def NewBacklogItem_def create_set_parent_def
      create_set_points_def UpdateStoryPoints_def)

text \<open>
  C1, as stated: STORY is a valid type and a title of two spaces is not empty, yet
  \<^verbatim>\<open>CreateItem\<close> returns no item: the title passes \<^verbatim>\<open>NewBacklogItem\<close> and the store
  refuses the row by \<^verbatim>\<open>backlog_items_title_not_empty\<close>.
\<close>

theorem CreateItem_blank_title_fails:
  "isValidItemType ItemTypeStory \<and> ''  '' \<noteq> [] \<and>
   CreateItem 100 ''n1'' ''v1'' ''r1'' ex_state (ex_request ItemTypeStory ''  '' None 0 []) =
     (Inl ErrCreateFailed, ex_state)"
  by (simp add: eval_defs)

text \<open>
  C1, amended. For a request without tags and a new UUID: \<^verbatim>\<open>CreateItem\<close> returns an item for
  every valid item type and every title with a character other than a space, when the
  request names no parent, its title and description are without NUL and its story points
  are at most the largest 32-bit number; and whenever \<^verbatim>\<open>CreateItem\<close> returns an item,
  \<^verbatim>\<open>GetItem\<close> on the returned item's ID returns an item whose status is NEW, whose priority
  is 0, whose tags are empty and whose external IDs are empty.
\<close>

theorem CreateItem_then_GetItem:
  assumes "req_Tags req = []"
    and "cache s (''item:'' @ newid) = None"
  shows "(isValidItemType (req_Type req) \<and> (\<exists>c \<in> set (req_Title req). c \<noteq> CHR '' '') \<and>
          req_ParentID req = None \<and> pg_text (req_Title req) \<and> pg_text (req_Description req) \<and>
          req_StoryPoints req \<le> 2147483647 \<and> newid \<notin> set (map ID (backlog_items s))
            \<longrightarrow> (\<exists>item s'. CreateItem now newid evid rowid s req = (Inr item, s'))) \<and>
         (\<forall>item s'. CreateItem now newid evid rowid s req = (Inr item, s') \<longrightarrow>
            (\<exists>got s''. GetItem s' (ID item) = (Inr got, s'') \<and> Status got = ItemStatusNew \<and>
               Priority got = 0 \<and> Tags got = [] \<and> ExternalIDs got = []))"
proof (intro conjI impI allI)
  assume a: "isValidItemType (req_Type req) \<and> (\<exists>c \<in> set (req_Title req). c \<noteq> CHR '' '') \<and>
          req_ParentID req = None \<and> pg_text (req_Title req) \<and> pg_text (req_Description req) \<and>
          req_StoryPoints req \<le> 2147483647 \<and> newid \<notin> set (map ID (backlog_items s))"
  then have "req_Title req \<noteq> []" by auto
  then obtain item where b: "build_item now newid (backlog_items s) req = Inr item"
    using a build_item_without_parent by blast
  have "validate_parent_child_relationship (backlog_items s) item"
    using a build_item_fields(11) [OF b] by (simp add: validate_parent_child_relationship_def)
  then show "\<exists>item s'. CreateItem now newid evid rowid s req = (Inr item, s')"
    using CreateItem_admitted [OF b, of evid rowid] a assms(1) by auto
next
  fix item s'
  assume c: "CreateItem now newid evid rowid s req = (Inr item, s')"
  note cs = CreateItem_success [OF c]
  note bf = build_item_fields [OF cs(1)]
  have key: "cache s' (''item:'' @ ID item) = None"
    using assms(2) by (simp add: cs(4) bf(1))
  have row: "repo_GetByID (backlog_items s') (ID item) = Inr item"
    using cs(2) by (simp add: repo_GetByID_def cs(3) bf(1) find_fresh_append)
  have "GetItem s' (ID item) = (Inr item, cache_Set (''item:'' @ ID item) (CachedItem item) s')"
    using key row by (simp add: GetItem_def Let_def)
  then show "\<exists>got s''. GetItem s' (ID item) = (Inr got, s'') \<and> Status got = ItemStatusNew \<and>
               Priority got = 0 \<and> Tags got = [] \<and> ExternalIDs got = []"
    using bf(4,5,7) bf(12) [OF assms(1)] by blast
qed

theorem CreateItem_then_GetItem_witness:
  "(\<exists>item s'. CreateItem 100 ''n1'' ''v1'' ''r1'' ex_state
                 (ex_request ItemTypeStory ''Pay by card'' None 0 []) = (Inr item, s') \<and>
      (\<exists>got s''. GetItem s' (ID item) = (Inr got, s'') \<and> Status got = ItemStatusNew \<and>
         Priority got = 0 \<and> Tags got = [] \<and> ExternalIDs got = []))"
proof -
  let ?req = "ex_request ItemTypeStory ''Pay by card'' None 0 []"
  have h1: "req_Tags ?req = []" by (simp add: ex_request_def)
  have h2: "cache ex_state (''item:'' @ ''n1'') = None" by (simp add: ex_state_def)
  have h3: "isValidItemType (req_Type ?req) \<and> (\<exists>c \<in> set (req_Title ?req). c \<noteq> CHR '' '') \<and>
          req_ParentID ?req = None \<and> pg_text (req_Title ?req) \<and> pg_text (req_Description ?req) \<and>
          req_StoryPoints ?req \<le> 2147483647 \<and> ''n1'' \<notin> set (map ID (backlog_items ex_state))"
    by (simp add: example_defs isValidItemType_def pg_text_def item_consts)
  show ?thesis
    using h3 CreateItem_then_GetItem [OF h1 h2, of 100 "''v1''" "''r1''"] by blast
qed

text \<open>
  C2, as stated: a FEATURE under the epic with a title of two spaces is not created, and a
  FEATURE under the story with the empty title fails with the title's error, not with
  InvalidRelationship.
\<close>

theorem CreateItem_feature_parent_title:
  "repo_GetByID (backlog_items ex_state) ''e1'' = Inr (ex_item ''e1'' ItemTypeEpic None) \<and>
   CreateItem 100 ''n1'' ''v1'' ''r1'' ex_state
       (ex_request ItemTypeFeature ''  '' (Some ''e1'') 0 []) = (Inl ErrCreateFailed, ex_state) \<and>
   repo_GetByID (backlog_items ex_state) ''s1''
     = Inr (ex_item ''s1'' ItemTypeStory (Some ''f1'')) \<and>
   CreateItem 100 ''n1'' ''v1'' ''r1'' ex_state
       (ex_request ItemTypeFeature [] (Some ''s1'') 0 []) = (Inl ErrTitleEmpty, ex_state)"
  by (simp add: eval_defs)

text \<open>
  C2, amended. A \<^verbatim>\<open>CreateItem\<close> request of type FEATURE whose \<^verbatim>\<open>parentId\<close> refers to an
  existing item: when the parent is a STORY the operation fails and the state is the one
  before, and the error is InvalidRelationship when the title is not empty; when the parent
  is an EPIC the operation succeeds and appends the row, for a request that the store
  admits: a title with a character other than a space, a title, a description and tags
  without NUL, story points of at most the largest 32-bit number, a new UUID.
\<close>

theorem CreateItem_feature_parent:
  assumes "req_Type req = ItemTypeFeature" and "req_ParentID req = Some parentID"
    and "repo_GetByID (backlog_items s) parentID = Inr parent"
  shows "(Type parent = ItemTypeStory \<and> req_Title req \<noteq> [] \<longrightarrow>
            CreateItem now newid evid rowid s req = (Inl ErrInvalidRelationship, s)) \<and>
         (Type parent = ItemTypeStory \<longrightarrow>
            (\<exists>e. CreateItem now newid evid rowid s req = (Inl e, s))) \<and>
         (Type parent = ItemTypeEpic \<and> (\<exists>c \<in> set (req_Title req). c \<noteq> CHR '' '') \<and>
          pg_text (req_Title req) \<and> pg_text (req_Description req) \<and>
          (\<forall>tag \<in> set (req_Tags req). pg_text tag) \<and> req_StoryPoints req \<le> 2147483647 \<and>
          newid \<notin> set (map ID (backlog_items s)) \<longrightarrow>
            (\<exists>item s'. CreateItem now newid evid rowid s req = (Inr item, s') \<and>
               backlog_items s' = backlog_items s @ [item] \<and>
               ParentID item = Some parentID \<and> Type item = ItemTypeFeature))"
proof (intro conjI impI)
  assume a: "Type parent = ItemTypeStory \<and> req_Title req \<noteq> []"
  have "build_item now newid (backlog_items s) req = Inl ErrInvalidRelationship"
    using assms a
    by (simp add: build_item_def NewBacklogItem_def isValidItemType_def create_set_parent_def
        UpdateParent_def isValidParentChild_def item_consts)
  then show "CreateItem now newid evid rowid s req = (Inl ErrInvalidRelationship, s)"
    by (simp add: CreateItem_def)
next
  assume a: "Type parent = ItemTypeStory"
  have "\<exists>e. build_item now newid (backlog_items s) req = Inl e"
    using assms a
    by (simp add: build_item_def NewBacklogItem_def isValidItemType_def create_set_parent_def
        UpdateParent_def isValidParentChild_def item_consts)
  then show "\<exists>e. CreateItem now newid evid rowid s req = (Inl e, s)"
    by (auto simp: CreateItem_def)
next
  assume a: "Type parent = ItemTypeEpic \<and> (\<exists>c \<in> set (req_Title req). c \<noteq> CHR '' '') \<and>
          pg_text (req_Title req) \<and> pg_text (req_Description req) \<and>
          (\<forall>tag \<in> set (req_Tags req). pg_text tag) \<and> req_StoryPoints req \<le> 2147483647 \<and>
          newid \<notin> set (map ID (backlog_items s))"
  then have t: "req_Title req \<noteq> []" by auto
  have "\<exists>item. build_item now newid (backlog_items s) req = Inr item"
    using assms a t
    by (cases "0 < req_StoryPoints req")
       (simp_all add: build_item_def NewBacklogItem_def isValidItemType_def create_set_parent_def
        create_set_points_def UpdateStoryPoints_def
        UpdateParent_def isValidParentChild_def item_consts)
  then obtain item where b: "build_item now newid (backlog_items s) req = Inr item" ..
  note bf = build_item_fields [OF b]
  have f: "find (\<lambda>r. ID r = parentID) (backlog_items s) = Some parent"
    using assms(3) by (simp add: repo_GetByID_def split: option.splits)
  have v: "validate_parent_child_relationship (backlog_items s) item"
    using a f bf(2,11) assms(1,2)
    by (simp add: validate_parent_child_relationship_def item_consts)
  have "\<exists>s'. CreateItem now newid evid rowid s req = (Inr item, s') \<and>
        backlog_items s' = backlog_items s @ [item]"
    using CreateItem_admitted [OF b _ _ _ _ _ _ v] a by blast
  then show "\<exists>item s'. CreateItem now newid evid rowid s req = (Inr item, s') \<and>
               backlog_items s' = backlog_items s @ [item] \<and>
               ParentID item = Some parentID \<and> Type item = ItemTypeFeature"
    using bf(2,11) assms(1,2) by auto
qed

theorem CreateItem_feature_parent_witness:
  "repo_GetByID (backlog_items ex_state) ''s1'' = Inr (ex_item ''s1'' ItemTypeStory (Some ''f1'')) \<and>
   CreateItem 100 ''n1'' ''v1'' ''r1'' ex_state (ex_request ItemTypeFeature ''Refunds'' (Some ''s1'') 0 [])
     = (Inl ErrInvalidRelationship, ex_state) \<and>
   repo_GetByID (backlog_items ex_state) ''e1'' = Inr (ex_item ''e1'' ItemTypeEpic None) \<and>
   (\<exists>item s'. CreateItem 100 ''n1'' ''v1'' ''r1'' ex_state
                  (ex_request ItemTypeFeature ''Refunds'' (Some ''e1'') 0 []) = (Inr item, s') \<and>
      backlog_items s' = backlog_items ex_state @ [item] \<and>
      ParentID item = Some ''e1'' \<and> Type item = ItemTypeFeature)"
proof -
  have s: "repo_GetByID (backlog_items ex_state) ''s1'' = Inr (ex_item ''s1'' ItemTypeStory (Some ''f1''))"
    by (simp add: repo_GetByID_def example_defs)
  have e: "repo_GetByID (backlog_items ex_state) ''e1'' = Inr (ex_item ''e1'' ItemTypeEpic None)"
    by (simp add: repo_GetByID_def example_defs)
  have t: "req_Type (ex_request ItemTypeFeature ''Refunds'' p 0 []) = ItemTypeFeature"
          "req_ParentID (ex_request ItemTypeFeature ''Refunds'' p 0 []) = p"
          "req_Title (ex_request ItemTypeFeature ''Refunds'' p 0 []) = ''Refunds''"
          "req_Description (ex_request ItemTypeFeature ''Refunds'' p 0 []) = []"
          "req_Tags (ex_request ItemTypeFeature ''Refunds'' p 0 []) = []"
          "req_StoryPoints (ex_request ItemTypeFeature ''Refunds'' p 0 []) = 0" for p
    by (simp_all add: ex_request_def)
  have ty: "Type (ex_item ''s1'' ItemTypeStory (Some ''f1'')) = ItemTypeStory"
           "Type (ex_item ''e1'' ItemTypeEpic None) = ItemTypeEpic"
    by (simp_all add: ex_item_def)
  have fresh: "''n1'' \<notin> set (map ID (backlog_items ex_state))"
    by (simp add: example_defs)
  have admitted: "(\<exists>c \<in> set ''Refunds''. c \<noteq> CHR '' '') \<and> pg_text ''Refunds'' \<and> pg_text []"
    by (simp add: pg_text_def)
  show ?thesis
    using s e ty fresh admitted
      CreateItem_feature_parent [OF t(1) t(2) s, of 100 "''n1''" "''v1''" "''r1''"]
      CreateItem_feature_parent [OF t(1) t(2) e, of 100 "''n1''" "''v1''" "''r1''"]
    by (simp add: t)
qed

subsection \<open>Deleting an item\<close>

text \<open>
  C3. \<^verbatim>\<open>DeleteItem\<close> fails with NotFound when no row has the ID; it fails with HasChildren,
  leaving the state as it was, when a row refers to the ID as its parent; for an existing
  item without children it succeeds, the row is gone and \<^verbatim>\<open>GetItem\<close> on the ID then fails
  with NotFound.
\<close>

theorem DeleteItem_cases:
  "(itemID \<notin> set (map ID (backlog_items s)) \<longrightarrow>
      DeleteItem now evid rowid s itemID = (Some ErrNotFound, s)) \<and>
   (itemID \<in> set (map ID (backlog_items s)) \<and>
    (\<exists>r \<in> set (backlog_items s). ParentID r = Some itemID) \<longrightarrow>
      DeleteItem now evid rowid s itemID = (Some ErrHasChildren, s)) \<and>
   (itemID \<in> set (map ID (backlog_items s)) \<and>
    \<not> (\<exists>r \<in> set (backlog_items s). ParentID r = Some itemID) \<longrightarrow>
      (\<exists>s'. DeleteItem now evid rowid s itemID = (None, s') \<and>
            itemID \<notin> set (map ID (backlog_items s')) \<and>
            fst (GetItem s' itemID) = Inl ErrNotFound))"
proof (intro conjI impI)
  assume "itemID \<notin> set (map ID (backlog_items s))"
  then have "repo_GetByID (backlog_items s) itemID = Inl ErrNotFound"
    by (simp add: repo_GetByID_NotFound)
  then show "DeleteItem now evid rowid s itemID = (Some ErrNotFound, s)"
    by (simp add: DeleteItem_def)
next
  assume a: "itemID \<in> set (map ID (backlog_items s)) \<and>
    (\<exists>r \<in> set (backlog_items s). ParentID r = Some itemID)"
  then obtain r where "repo_GetByID (backlog_items s) itemID = Inr r"
    using repo_GetByID_exists by blast
  moreover have "repo_GetChildren (backlog_items s) itemID \<noteq> []"
    using a has_children_iff by blast
  ultimately show "DeleteItem now evid rowid s itemID = (Some ErrHasChildren, s)"
    by (simp add: DeleteItem_def)
next
  assume a: "itemID \<in> set (map ID (backlog_items s)) \<and>
    \<not> (\<exists>r \<in> set (backlog_items s). ParentID r = Some itemID)"
  then obtain r where r: "repo_GetByID (backlog_items s) itemID = Inr r"
    using repo_GetByID_exists by blast
  have c: "repo_GetChildren (backlog_items s) itemID = []"
    using a has_children_iff by blast
  define tbl where "tbl = map (\<lambda>r. if ParentID r = Some itemID
                            then r\<lparr> ParentID := None, UpdatedAt := now \<rparr> else r)
                    (filter (\<lambda>r. ID r \<noteq> itemID) (backlog_items s))"
  define evs where "evs = filter (\<lambda>e. row_item_id e \<noteq> Some itemID) (events s)"
  have d: "repo_Delete now (backlog_items s) (events s) itemID = Inr (tbl, evs)"
    using a by (simp add: repo_Delete_def tbl_def evs_def)
  have gone: "itemID \<notin> set (map ID tbl)"
    by (auto simp: tbl_def split: if_splits)
  obtain s' where s': "DeleteItem now evid rowid s itemID = (None, s')"
    and tbl': "backlog_items s' = tbl" and c': "cache s' (''item:'' @ itemID) = None"
    using r c d by (simp add: DeleteItem_def Let_def)
  have "repo_GetByID (backlog_items s') itemID = Inl ErrNotFound"
    using gone tbl' by (simp add: repo_GetByID_NotFound)
  then have "fst (GetItem s' itemID) = Inl ErrNotFound"
    using c' by (simp add: GetItem_def Let_def)
  then show "\<exists>s'. DeleteItem now evid rowid s itemID = (None, s') \<and>
            itemID \<notin> set (map ID (backlog_items s')) \<and>
            fst (GetItem s' itemID) = Inl ErrNotFound"
    using s' gone tbl' by auto
qed

theorem DeleteItem_cases_witness:
  "DeleteItem 100 ''v1'' ''r1'' ex_state ''zz'' = (Some ErrNotFound, ex_state) \<and>
   DeleteItem 100 ''v1'' ''r1'' ex_state ''e1'' = (Some ErrHasChildren, ex_state) \<and>
   (\<exists>s'. DeleteItem 100 ''v1'' ''r1'' ex_state ''s1'' = (None, s') \<and>
      ''s1'' \<notin> set (map ID (backlog_items s')) \<and>
      fst (GetItem s' ''s1'') = Inl ErrNotFound)"
proof -
  have a: "''zz'' \<notin> set (map ID (backlog_items ex_state))"
    by (simp add: example_defs)
  have b: "''e1'' \<in> set (map ID (backlog_items ex_state)) \<and>
           (\<exists>r \<in> set (backlog_items ex_state). ParentID r = Some ''e1'')"
    by (simp add: example_defs)
  have c: "''s1'' \<in> set (map ID (backlog_items ex_state)) \<and>
           \<not> (\<exists>r \<in> set (backlog_items ex_state). ParentID r = Some ''s1'')"
    by (simp add: example_defs)
  show ?thesis
    using a b c DeleteItem_cases [of "''zz''" ex_state 100 "''v1''"]
      DeleteItem_cases [of "''e1''" ex_state 100 "''v1''"]
      DeleteItem_cases [of "''s1''" ex_state 100 "''v1''"]
    by blast
qed

subsection \<open>Metrics\<close>

lemma go_int_id: "- (2 ^ 63) \<le> x \<Longrightarrow> x < 2 ^ 63 \<Longrightarrow> go_int x = x"
  by (simp add: go_int_def)

lemma count_of_size_counts:
  "count_of (size_counts e f s) ItemTypeEpic = e"
  "count_of (size_counts e f s) ItemTypeFeature = f"
  "count_of (size_counts e f s) ItemTypeStory = s"
  by (simp_all add: count_of_def size_counts_def item_consts)

lemma total_count_size_counts: "total_count (size_counts e f s) = e + f + s"
  by (simp add: total_count_def count_of_size_counts)

lemma total_items_exact:
  assumes "0 \<le> count_of sc ItemTypeEpic" and "0 \<le> count_of sc ItemTypeFeature"
    and "0 \<le> count_of sc ItemTypeStory" and "total_count sc < 2 ^ 63"
  shows "total_items sc = total_count sc"
proof -
  have "go_int (count_of sc ItemTypeEpic + count_of sc ItemTypeFeature) =
      count_of sc ItemTypeEpic + count_of sc ItemTypeFeature"
    using assms by (intro go_int_id) (simp_all add: total_count_def)
  then show ?thesis
    using assms by (simp add: total_items_def total_count_def go_int_id)
qed

lemma abs_float_abs: "abs_float x = \<bar>x\<bar>"
  by (simp add: abs_float_def)

lemma calculateIcebergRatio_equal_counts:
  assumes "0 < n" and "3 * n < 2 ^ 63"
  shows "calculateIcebergRatio (size_counts n n n) = 199 / 200"
proof -
  have "total_items (size_counts n n n) = 3 * n"
    using assms by (simp add: total_items_exact count_of_size_counts total_count_size_counts)
  then show ?thesis
    using assms(1)
    by (simp add: calculateIcebergRatio_def total_items_def count_of_size_counts abs_float_def
        Let_def field_simps)
qed

text \<open>For counts that do not overflow, no distribution scores above \<open>199 / 200\<close>.\<close>

lemma calculateIcebergRatio_below_one:
  assumes "0 \<le> count_of sc ItemTypeEpic" and "0 \<le> count_of sc ItemTypeFeature"
    and "0 \<le> count_of sc ItemTypeStory" and "total_count sc < 2 ^ 63"
    and "total_count sc \<noteq> 0"
  shows "calculateIcebergRatio sc \<le> 199 / 200"
proof -
  define t where "t = real_of_int (total_count sc)"
  define a where "a = real_of_int (count_of sc ItemTypeEpic) / t"
  define b where "b = real_of_int (count_of sc ItemTypeFeature) / t"
  define c where "c = real_of_int (count_of sc ItemTypeStory) / t"
  have ti: "total_items sc = total_count sc"
    using assms(1-4) by (rule total_items_exact)
  have t0: "t \<noteq> 0" using assms(5) by (simp add: t_def)
  have "a + b + c = (real_of_int (count_of sc ItemTypeEpic) + real_of_int (count_of sc ItemTypeFeature)
      + real_of_int (count_of sc ItemTypeStory)) / t"
    by (simp add: a_def b_def c_def add_divide_distrib)
  also have "\<dots> = 1" using t0 by (simp add: t_def total_count_def)
  finally have s: "a + b + c = 1" .
  define d where "d = \<bar>a - 33 / 100\<bar> + \<bar>b - 33 / 100\<bar> + \<bar>c - 33 / 100\<bar>"
  have "1 / 100 \<le> d"
    using s unfolding d_def by linarith
  moreover have "calculateIcebergRatio sc = 1 - d / 2"
    using assms(5) ti
    by (simp add: calculateIcebergRatio_def Let_def abs_float_abs a_def b_def c_def t_def
        d_def total_items_def [symmetric])
  ultimately show ?thesis by simp
qed

text \<open>
  C5. With 10 epics, 10 features and 10 stories \<^verbatim>\<open>calculateIcebergRatio\<close> gives
  \<open>199 / 200\<close>, where the ratio of the spec is 1: the code compares each share with the
  constant \<^verbatim>\<open>0.33\<close>, so each of the three deviations is \<open>1 / 300\<close>.
\<close>

theorem calculateIcebergRatio_even_split:
  "calculateIcebergRatio (size_counts 10 10 10) = 199 / 200 \<and>
   spec_icebergRatio (size_counts 10 10 10) = 1"
  by (simp add: calculateIcebergRatio_def spec_icebergRatio_def total_count_size_counts
      count_of_size_counts abs_float_def go_int_def Let_def)

text \<open>The order in which the helper decides, on the total as the code computes it.\<close>

lemma determineHealthStatus_order:
  "(total_items sc > 150 \<longrightarrow> determineHealthStatus sc w l = ''AT_RISK'') \<and>
   (total_items sc \<le> 150 \<and> (w > 20 \<or> l > 60) \<longrightarrow> determineHealthStatus sc w l = ''WARNING'') \<and>
   (total_items sc \<le> 150 \<and> \<not> (w > 20 \<or> l > 60) \<and>
    total_items sc \<le> 100 \<and> w \<le> 10 \<and> l \<le> 30
      \<longrightarrow> determineHealthStatus sc w l = ''HEALTHY'') \<and>
   (total_items sc \<le> 150 \<and> \<not> (w > 20 \<or> l > 60) \<and>
    \<not> (total_items sc \<le> 100 \<and> w \<le> 10 \<and> l \<le> 30)
      \<longrightarrow> determineHealthStatus sc w l = ''AVERAGE'')"
  by (auto simp: determineHealthStatus_def total_items_def Let_def)

text \<open>The sum wraps: with the largest \<^verbatim>\<open>int\<close> and one more item the total is negative.\<close>

lemma determineHealthStatus_wraps:
  "determineHealthStatus (size_counts 9223372036854775807 1 0) 0 0 = ''HEALTHY''"
  by (simp add: determineHealthStatus_def count_of_size_counts go_int_def Let_def)




subsection \<open>Replaying the event log\<close>




text \<open>
  The rows that the service itself writes carry no item ID (see \<^verbatim>\<open>StoreEvent\<close>), so the
  replay of an item finds none of them: after \<^verbatim>\<open>CreateItem\<close> and \<^verbatim>\<open>UpdateItem\<close> it fails
  with "no events found".
\<close>

lemma replay_after_service_updates:
  "ReplayEvents 900
     (events (snd (UpdateItem 20 ''v2'' ''r2''
        (snd (CreateItem 10 ''n1'' ''v1'' ''r1'' ex_state
                (ex_request ItemTypeStory ''Pay by card'' None 2 [])))
        ''n1'' (ex_update (Some ''Pay by card or cash'') None (Some ''ada''))))) ''n1''
   = Inl ErrNoEvents"
  by (simp add: eval_defs GetEventsByItemID_def decode_event_def ReplayEvents_def)

subsection \<open>Validation of titles and story points\<close>

text \<open>
  C7. A title of two spaces passes the checks of \<^verbatim>\<open>NewBacklogItem\<close> and \<^verbatim>\<open>UpdateTitle\<close>,
  which compare the title with the empty string; a title that is one tab passes the check
  of the schema as well, so \<^verbatim>\<open>CreateItem\<close> and \<^verbatim>\<open>UpdateItem\<close> store it.
\<close>

theorem blank_title_accepted:
  "NewBacklogItem 100 ''n1'' ItemTypeStory ''  '' [] =
     Inr \<lparr> ID = ''n1'', Type = ItemTypeStory, ParentID = None, Title = ''  '',
            Description = [], StoryPoints = 0, Status = ItemStatusNew, Priority = 0,
            Assignee = [], Tags = [], CreatedAt = 100, UpdatedAt = 100,
            ExternalIDs = [] \<rparr> \<and>
   UpdateTitle 100 ''  '' (ex_item ''s1'' ItemTypeStory None) =
     Inr ((ex_item ''s1'' ItemTypeStory None)\<lparr> Title := ''  '', UpdatedAt := 100 \<rparr>) \<and>
   map Title (backlog_items (snd (CreateItem 100 ''n1'' ''v1'' ''r1'' ex_state
                                    (ex_request ItemTypeStory [CHR 0x09] None 0 [])))) =
     [''Checkout'', ''Checkout'', ''Checkout'', [CHR 0x09]] \<and>
   map Title (backlog_items (snd (UpdateItem 100 ''v1'' ''r1'' ex_state ''s1''
                                    (ex_update (Some [CHR 0x09]) None None)))) =
     [''Checkout'', ''Checkout'', [CHR 0x09]]"
  by (simp add: eval_defs)

text \<open>
  C8. \<^verbatim>\<open>CreateItem\<close> with story points \<open>-5\<close> returns an item with 0 story points and writes
  its row: the guard \<^verbatim>\<open>req.StoryPoints > 0\<close> skips \<^verbatim>\<open>UpdateStoryPoints\<close>, the only place
  that refuses a negative number.
\<close>

theorem CreateItem_negative_points:
  "fst (CreateItem 100 ''n1'' ''v1'' ''r1'' ex_state
          (ex_request ItemTypeStory ''Pay by card'' None (- 5) [])) =
     Inr \<lparr> ID = ''n1'', Type = ItemTypeStory, ParentID = None, Title = ''Pay by card'',
            Description = [], StoryPoints = 0, Status = ItemStatusNew, Priority = 0,
            Assignee = [], Tags = [], CreatedAt = 100, UpdatedAt = 100,
            ExternalIDs = [] \<rparr> \<and>
   map ID (backlog_items (snd (CreateItem 100 ''n1'' ''v1'' ''r1'' ex_state
                                (ex_request ItemTypeStory ''Pay by card'' None (- 5) [])))) =
     [''e1'', ''f1'', ''s1'', ''n1'']"
  by (simp add: eval_defs)

text \<open>\<^verbatim>\<open>UpdateItem\<close> does refuse negative story points, and writes nothing.\<close>

lemma UpdateItem_negative_points:
  assumes "upd_StoryPoints req = Some p" and "p < 0"
  shows "\<exists>e. UpdateItem now evid rowid s itemID req = (Inl e, s)"
  using assms
  by (auto simp: UpdateItem_def apply_updates_def update_points_def UpdateStoryPoints_def
      split: sum.splits)

lemma UpdateItem_negative_points_error:
  assumes "upd_StoryPoints req = Some p" and "p < 0"
    and "itemID \<in> set (map ID (backlog_items s))"
    and "upd_Title req = None" and "upd_Status req = None"
  shows "UpdateItem now evid rowid s itemID req = (Inl ErrNegativeStoryPoints, s)"
proof -
  obtain r where "repo_GetByID (backlog_items s) itemID = Inr r"
    using assms(3) repo_GetByID_exists by blast
  then show ?thesis
    using assms(1,2,4,5)
    by (simp add: UpdateItem_def apply_updates_def update_title_def update_status_def
        update_points_def UpdateStoryPoints_def)
qed

subsection \<open>Cache invalidation\<close>

lemma UpdateItem_success:
  assumes "UpdateItem now evid rowid s itemID req = (Inr item, s')"
  shows "cache s' = (cache s)(''item:'' @ itemID := None, ''list:all'' := None, ''metrics'' := None)"
    and "\<exists>item0. repo_GetByID (backlog_items s) itemID = Inr item0 \<and>
           apply_updates now (backlog_items s) req item0 = Inr item \<and>
           repo_Update now (backlog_items s) item = Inr (backlog_items s')"
  using assms
  by (auto simp: UpdateItem_def Let_def split: sum.splits)

lemma DeleteItem_success:
  assumes "DeleteItem now evid rowid s itemID = (None, s')"
  shows "cache s' = (cache s)(''item:'' @ itemID := None, ''list:all'' := None, ''metrics'' := None)"
  using assms
  by (auto simp: DeleteItem_def Let_def split: sum.splits if_splits)

lemma ReorderItems_success:
  assumes "ReorderItems now evid rowid s reqs = (None, s')" and "reqs \<noteq> []"
  shows "cache s' = (cache s)(''list:all'' := None, ''metrics'' := None)"
  using assms
  by (auto simp: ReorderItems_def Let_def split: sum.splits)

lemma SetExternalID_success:
  assumes "SetExternalID now evid rowid s itemID system externalID = (None, s')"
  shows "cache s' = (cache s)(''item:'' @ itemID := None)"
  using assms
  by (auto simp: SetExternalID_def Let_def split: sum.splits)

text \<open>
  C9, as stated: a successful \<^verbatim>\<open>SetExternalID\<close> leaves the keys \<^verbatim>\<open>metrics\<close> and
  \<^verbatim>\<open>list:all\<close> in the cache.
\<close>

theorem SetExternalID_keeps_list_keys:
  "fst (SetExternalID 100 ''v1'' ''r1'' ex_state ''s1'' ''jira'' ''PROJ-1'') = None \<and>
   cache (snd (SetExternalID 100 ''v1'' ''r1'' ex_state ''s1'' ''jira'' ''PROJ-1'')) ''metrics''
     = Some CachedOther \<and>
   cache (snd (SetExternalID 100 ''v1'' ''r1'' ex_state ''s1'' ''jira'' ''PROJ-1'')) ''list:all''
     = Some CachedOther"
  by (simp add: eval_defs)

text \<open>
  C9, amended. A successful \<^verbatim>\<open>CreateItem\<close>, \<^verbatim>\<open>UpdateItem\<close>, \<^verbatim>\<open>DeleteItem\<close> or
  \<^verbatim>\<open>ReorderItems\<close> of a non-empty list deletes the keys \<^verbatim>\<open>metrics\<close> and \<^verbatim>\<open>list:all\<close>;
  \<^verbatim>\<open>UpdateItem\<close> and \<^verbatim>\<open>DeleteItem\<close> also delete the item's key; a successful
  \<^verbatim>\<open>SetExternalID\<close> deletes the item's key and no other.
\<close>

theorem cache_invalidation:
  "(CreateItem now newid evid rowid s creq = (Inr item, s') \<longrightarrow>
      cache s' ''metrics'' = None \<and> cache s' ''list:all'' = None) \<and>
   (UpdateItem now evid rowid s itemID ureq = (Inr item, s') \<longrightarrow>
      cache s' ''metrics'' = None \<and> cache s' ''list:all'' = None \<and>
      cache s' (''item:'' @ itemID) = None) \<and>
   (DeleteItem now evid rowid s itemID = (None, s') \<longrightarrow>
      cache s' ''metrics'' = None \<and> cache s' ''list:all'' = None \<and>
      cache s' (''item:'' @ itemID) = None) \<and>
   (reqs \<noteq> [] \<and> ReorderItems now evid rowid s reqs = (None, s') \<longrightarrow>
      cache s' ''metrics'' = None \<and> cache s' ''list:all'' = None) \<and>
   (SetExternalID now evid rowid s itemID system externalID = (None, s') \<longrightarrow>
      cache s' (''item:'' @ itemID) = None \<and>
      (\<forall>k. k \<noteq> ''item:'' @ itemID \<longrightarrow> cache s' k = cache s k))"
proof (intro conjI impI)
  assume "CreateItem now newid evid rowid s creq = (Inr item, s')"
  from CreateItem_success(4) [OF this]
  show "cache s' ''metrics'' = None" "cache s' ''list:all'' = None" by simp_all
next
  assume "UpdateItem now evid rowid s itemID ureq = (Inr item, s')"
  from UpdateItem_success(1) [OF this]
  show "cache s' ''metrics'' = None" "cache s' ''list:all'' = None"
    "cache s' (''item:'' @ itemID) = None" by simp_all
next
  assume "DeleteItem now evid rowid s itemID = (None, s')"
  from DeleteItem_success [OF this]
  show "cache s' ''metrics'' = None" "cache s' ''list:all'' = None"
    "cache s' (''item:'' @ itemID) = None" by simp_all
next
  assume "reqs \<noteq> [] \<and> ReorderItems now evid rowid s reqs = (None, s')"
  then have "cache s' = (cache s)(''list:all'' := None, ''metrics'' := None)"
    using ReorderItems_success by blast
  then show "cache s' ''metrics'' = None" "cache s' ''list:all'' = None" by simp_all
next
  assume "SetExternalID now evid rowid s itemID system externalID = (None, s')"
  from SetExternalID_success [OF this]
  show "cache s' (''item:'' @ itemID) = None"
    "\<forall>k. k \<noteq> ''item:'' @ itemID \<longrightarrow> cache s' k = cache s k" by simp_all
qed

theorem cache_invalidation_witness:
  "cache (snd (CreateItem 100 ''n1'' ''v1'' ''r1'' ex_state
                 (ex_request ItemTypeStory ''Pay by card'' None 0 []))) ''metrics'' = None \<and>
   cache (snd (UpdateItem 100 ''v1'' ''r1'' ex_state ''s1'' (ex_update (Some ''Basket'') None None)))
     ''item:s1'' = None \<and>
   cache (snd (DeleteItem 100 ''v1'' ''r1'' ex_state ''s1'')) ''list:all'' = None \<and>
   cache (snd (ReorderItems 100 ''v1'' ''r1'' ex_state ex_reorder)) ''metrics'' = None \<and>
   cache (snd (SetExternalID 100 ''v1'' ''r1'' ex_state ''s1'' ''jira'' ''PROJ-1'')) ''item:s1'' = None \<and>
   cache (snd (SetExternalID 100 ''v1'' ''r1'' ex_state ''s1'' ''jira'' ''PROJ-1'')) ''metrics''
     = cache ex_state ''metrics''"
proof -
  let ?c = "CreateItem 100 ''n1'' ''v1'' ''r1'' ex_state (ex_request ItemTypeStory ''Pay by card'' None 0 [])"
  let ?u = "UpdateItem 100 ''v1'' ''r1'' ex_state ''s1'' (ex_update (Some ''Basket'') None None)"
  let ?d = "DeleteItem 100 ''v1'' ''r1'' ex_state ''s1''"
  let ?r = "ReorderItems 100 ''v1'' ''r1'' ex_state ex_reorder"
  let ?x = "SetExternalID 100 ''v1'' ''r1'' ex_state ''s1'' ''jira'' ''PROJ-1''"
  have "\<exists>item. fst ?c = Inr item" by (simp add: eval_defs)
  then obtain ci where c: "?c = (Inr ci, snd ?c)" by (metis prod.collapse)
  have "\<exists>item. fst ?u = Inr item" by (simp add: eval_defs)
  then obtain ui where u: "?u = (Inr ui, snd ?u)" by (metis prod.collapse)
  have "fst ?d = None" by (simp add: eval_defs)
  then have d: "?d = (None, snd ?d)" by (metis prod.collapse)
  have "fst ?r = None" by (simp add: eval_defs)
  then have r: "ex_reorder \<noteq> [] \<and> ?r = (None, snd ?r)"
    by (metis prod.collapse ex_reorder_def list.distinct(1))
  have "fst ?x = None" by (simp add: eval_defs)
  then have x: "?x = (None, snd ?x)" by (metis prod.collapse)
  have k: "''metrics'' \<noteq> ''item:'' @ ''s1''" by simp
  show ?thesis
    using c u d r x k
      cache_invalidation [where now = 100 and newid = "''n1''" and evid = "''v1''" and rowid = "''r1''"
        and s = ex_state and s' = "snd ?c" and item = ci
        and creq = "ex_request ItemTypeStory ''Pay by card'' None 0 []"]
      cache_invalidation [where now = 100 and evid = "''v1''" and rowid = "''r1''" and s = ex_state
        and s' = "snd ?u" and item = ui and itemID = "''s1''"
        and ureq = "ex_update (Some ''Basket'') None None"]
      cache_invalidation [where now = 100 and evid = "''v1''" and rowid = "''r1''" and s = ex_state
        and s' = "snd ?d" and itemID = "''s1''"]
      cache_invalidation [where now = 100 and evid = "''v1''" and rowid = "''r1''" and s = ex_state
        and s' = "snd ?r" and reqs = ex_reorder]
      cache_invalidation [where now = 100 and evid = "''v1''" and rowid = "''r1''" and s = ex_state
        and s' = "snd ?x" and itemID = "''s1''" and system = "''jira''"
        and externalID = "''PROJ-1''"]
    by simp
qed

subsection \<open>The assignee\<close>

lemma update_steps_ID:
  "update_title now req i = Inr i' \<Longrightarrow> ID i' = ID i"
  "update_status now req i = Inr i' \<Longrightarrow> ID i' = ID i"
  "update_points now req i = Inr i' \<Longrightarrow> ID i' = ID i"
  "update_parent now tbl req i = Inr i' \<Longrightarrow> ID i' = ID i"
  "ID (update_description now req i) = ID i"
  "ID (update_priority now req i) = ID i"
  "ID (update_assignee req i) = ID i"
  "ID (update_tags now req i) = ID i"
  by (auto simp: update_title_def update_description_def update_status_def
      update_points_def update_priority_def update_parent_def update_assignee_def
      update_tags_def UpdateTitle_def UpdateDescription_def UpdateStatus_def
      UpdateStoryPoints_def UpdatePriority_def UpdateParent_def fold_AddTag_fields
      split: sum.splits option.splits if_splits)

lemma apply_updates_ID:
  assumes "apply_updates now tbl req i = Inr i'"
  shows "ID i' = ID i"
proof -
  from assms obtain i1 i2 i3 i4 where
    "update_title now req i = Inr i1"
    "update_status now req (update_description now req i1) = Inr i2"
    "update_points now req i2 = Inr i3"
    "update_parent now tbl req (update_priority now req i3) = Inr i4"
    "i' = update_tags now req (update_assignee req i4)"
    by (auto simp: apply_updates_def split: sum.splits)
  then show ?thesis
    by (simp add: update_steps_ID)
qed

lemma apply_updates_Assignee:
  "apply_updates now tbl req i = Inr i' \<Longrightarrow> upd_Assignee req = Some a \<Longrightarrow> Assignee i' = a"
  by (auto simp: apply_updates_def update_assignee_def update_tags_def fold_AddTag_fields
      split: sum.splits option.splits)

lemma repo_Update_rows:
  "repo_Update now tbl item = Inr tbl' \<Longrightarrow> r \<in> set tbl' \<Longrightarrow> ID r = ID item \<Longrightarrow>
   Assignee r = Assignee item"
  by (auto simp: repo_Update_def Let_def split: if_splits)

lemma repo_UpdatePriorities_Assignee:
  "repo_UpdatePriorities now tbl m = Inr tbl' \<Longrightarrow> map Assignee tbl' = map Assignee tbl"
  by (auto simp: repo_UpdatePriorities_def split: if_splits option.splits)

lemma ReorderItems_Assignee:
  "ReorderItems now evid rowid s reqs = (None, s') \<Longrightarrow>
   map Assignee (backlog_items s') = map Assignee (backlog_items s)"
  by (auto simp: ReorderItems_def Let_def repo_UpdatePriorities_Assignee
      split: if_splits sum.splits)

lemma SetExternalID_Assignee:
  assumes "SetExternalID now evid rowid s itemID system externalID = (None, s')"
    and "distinct (map ID (backlog_items s))"
  shows "map Assignee (backlog_items s') = map Assignee (backlog_items s)"
proof -
  from assms(1) obtain item0 where g: "repo_GetByID (backlog_items s) itemID = Inr item0"
    and up: "repo_Update now (backlog_items s)
               (BacklogItem_SetExternalID now system externalID item0) = Inr (backlog_items s')"
    by (auto simp: SetExternalID_def Let_def split: sum.splits)
  let ?item = "BacklogItem_SetExternalID now system externalID item0"
  have m: "item0 \<in> set (backlog_items s)" and i: "ID item0 = itemID"
    using repo_GetByID_found [OF g] by simp_all
  have inj: "inj_on ID (set (backlog_items s))"
    using assms(2) by (simp add: distinct_map)
  have same: "r = item0" if "r \<in> set (backlog_items s)" and "ID r = ID ?item" for r
    using that m inj by (auto simp: BacklogItem_SetExternalID_def dest: inj_onD)
  have "backlog_items s' =
      map (\<lambda>r. if ID r = ID ?item then ?item\<lparr> CreatedAt := CreatedAt r, UpdatedAt := now \<rparr>
                 else r) (backlog_items s)"
    using up by (simp add: repo_Update_def split: if_splits)
  then have "map Assignee (backlog_items s') =
      map (\<lambda>r. if ID r = ID ?item then Assignee item0 else Assignee r) (backlog_items s)"
    by (simp add: BacklogItem_SetExternalID_def o_def if_distrib cong: if_cong)
  also have "\<dots> = map Assignee (backlog_items s)"
    using same by (intro map_cong) auto
  finally show ?thesis .
qed

text \<open>
  C10. The item that \<^verbatim>\<open>CreateItem\<close> returns and stores has the empty assignee, whatever the
  request's assignee is. Afterwards a successful \<^verbatim>\<open>UpdateItem\<close> whose request carries an
  assignee gives the item that assignee, in the result and in the table, while
  \<^verbatim>\<open>SetExternalID\<close> and \<^verbatim>\<open>ReorderItems\<close> leave the assignee of every row as it is.
\<close>

theorem CreateItem_ignores_assignee:
  "(CreateItem now newid evid rowid s req = (Inr item, s') \<longrightarrow>
      Assignee item = [] \<and> repo_GetByID (backlog_items s') (ID item) = Inr item) \<and>
   (UpdateItem now2 evid2 rowid2 s1 itemID ureq = (Inr item2, s2) \<and> upd_Assignee ureq = Some a \<longrightarrow>
      Assignee item2 = a \<and>
      (\<forall>r \<in> set (backlog_items s2). ID r = itemID \<longrightarrow> Assignee r = a)) \<and>
   (SetExternalID now3 evid3 rowid3 s3 itemID3 system externalID = (None, s4) \<and>
    distinct (map ID (backlog_items s3)) \<longrightarrow>
      map Assignee (backlog_items s4) = map Assignee (backlog_items s3)) \<and>
   (ReorderItems now5 evid5 rowid5 s5 reqs = (None, s6) \<longrightarrow>
      map Assignee (backlog_items s6) = map Assignee (backlog_items s5))"
proof (intro conjI impI)
  assume c: "CreateItem now newid evid rowid s req = (Inr item, s')"
  note cs = CreateItem_success [OF c]
  note bf = build_item_fields [OF cs(1)]
  show "Assignee item = []" by (rule bf(6))
  show "repo_GetByID (backlog_items s') (ID item) = Inr item"
    using cs(2) by (simp add: repo_GetByID_def cs(3) bf(1) find_fresh_append)
next
  assume u: "UpdateItem now2 evid2 rowid2 s1 itemID ureq = (Inr item2, s2) \<and> upd_Assignee ureq = Some a"
  then obtain item0 where g: "repo_GetByID (backlog_items s1) itemID = Inr item0"
    and ap: "apply_updates now2 (backlog_items s1) ureq item0 = Inr item2"
    and up: "repo_Update now2 (backlog_items s1) item2 = Inr (backlog_items s2)"
    using UpdateItem_success(2) by blast
  show a: "Assignee item2 = a"
    using ap u apply_updates_Assignee by blast
  have i: "ID item2 = itemID"
    using apply_updates_ID [OF ap] repo_GetByID_found [OF g] by simp
  show "\<forall>r \<in> set (backlog_items s2). ID r = itemID \<longrightarrow> Assignee r = a"
  proof (intro ballI impI)
    fix r assume "r \<in> set (backlog_items s2)" and "ID r = itemID"
    then have "Assignee r = Assignee item2"
      using repo_Update_rows [OF up] i by simp
    then show "Assignee r = a" using a by simp
  qed
next
  assume "SetExternalID now3 evid3 rowid3 s3 itemID3 system externalID = (None, s4) \<and>
    distinct (map ID (backlog_items s3))"
  then show "map Assignee (backlog_items s4) = map Assignee (backlog_items s3)"
    using SetExternalID_Assignee by blast
next
  assume "ReorderItems now5 evid5 rowid5 s5 reqs = (None, s6)"
  then show "map Assignee (backlog_items s6) = map Assignee (backlog_items s5)"
    by (rule ReorderItems_Assignee)
qed

theorem CreateItem_ignores_assignee_witness:
  "(\<exists>item. fst (CreateItem 100 ''n1'' ''v1'' ''r1'' ex_state
                   (ex_request ItemTypeStory ''Pay by card'' None 0 ''ada'')) = Inr item \<and>
      Assignee item = []) \<and>
   (\<exists>item2. fst (UpdateItem 200 ''v2'' ''r2'' ex_state ''s1'' (ex_update None None (Some ''ada'')))
              = Inr item2 \<and> Assignee item2 = ''ada'') \<and>
   fst (SetExternalID 300 ''v3'' ''r3'' ex_state ''s1'' ''jira'' ''PROJ-1'') = None \<and>
   map Assignee (backlog_items (snd (SetExternalID 300 ''v3'' ''r3'' ex_state ''s1'' ''jira'' ''PROJ-1'')))
     = map Assignee (backlog_items ex_state) \<and>
   fst (ReorderItems 400 ''v4'' ''r4'' ex_state ex_reorder) = None \<and>
   map Assignee (backlog_items (snd (ReorderItems 400 ''v4'' ''r4'' ex_state ex_reorder)))
     = map Assignee (backlog_items ex_state)"
proof -
  let ?c = "CreateItem 100 ''n1'' ''v1'' ''r1'' ex_state
              (ex_request ItemTypeStory ''Pay by card'' None 0 ''ada'')"
  let ?u = "UpdateItem 200 ''v2'' ''r2'' ex_state ''s1'' (ex_update None None (Some ''ada''))"
  let ?x = "SetExternalID 300 ''v3'' ''r3'' ex_state ''s1'' ''jira'' ''PROJ-1''"
  let ?r = "ReorderItems 400 ''v4'' ''r4'' ex_state ex_reorder"
  have "\<exists>item. fst ?c = Inr item" by (simp add: eval_defs)
  then obtain ci where c: "?c = (Inr ci, snd ?c)" by (metis prod.collapse)
  have "\<exists>item. fst ?u = Inr item" by (simp add: eval_defs)
  then obtain ui where u: "?u = (Inr ui, snd ?u)" by (metis prod.collapse)
  have fx: "fst ?x = None" by (simp add: eval_defs)
  then have x: "?x = (None, snd ?x)" by (metis prod.collapse)
  have fr: "fst ?r = None" by (simp add: eval_defs)
  then have r: "?r = (None, snd ?r)" by (metis prod.collapse)
  have d: "distinct (map ID (backlog_items ex_state))" by (simp add: example_defs)
  have a: "upd_Assignee (ex_update None None (Some ''ada'')) = Some ''ada''"
    by (simp add: ex_update_def)
  have "Assignee ci = []"
    using c CreateItem_ignores_assignee [where now = 100 and newid = "''n1''"
        and evid = "''v1''" and rowid = "''r1''" and s = ex_state and item = ci and s' = "snd ?c"
        and req = "ex_request ItemTypeStory ''Pay by card'' None 0 ''ada''"]
    by simp
  moreover have "Assignee ui = ''ada''"
    using u a CreateItem_ignores_assignee [where ?now2.0 = 200 and ?evid2.0 = "''v2''" and ?rowid2.0 = "''r2''"
        and ?s1.0 = ex_state and itemID = "''s1''" and ?item2.0 = ui and ?s2.0 = "snd ?u"
        and ureq = "ex_update None None (Some ''ada'')" and a = "''ada''"]
    by simp
  moreover have "map Assignee (backlog_items (snd ?x)) = map Assignee (backlog_items ex_state)"
    using x d CreateItem_ignores_assignee [where ?now3.0 = 300 and ?evid3.0 = "''v3''" and ?rowid3.0 = "''r3''"
        and ?s3.0 = ex_state and ?itemID3.0 = "''s1''" and system = "''jira''"
        and externalID = "''PROJ-1''" and ?s4.0 = "snd ?x"]
    by simp
  moreover have "map Assignee (backlog_items (snd ?r)) = map Assignee (backlog_items ex_state)"
    using r CreateItem_ignores_assignee [where ?now5.0 = 400 and ?evid5.0 = "''v4''" and ?rowid5.0 = "''r4''"
        and ?s5.0 = ex_state and reqs = ex_reorder and ?s6.0 = "snd ?r"]
    by simp
  ultimately show ?thesis
    using c u fx fr by (metis fst_conv)
qed

end
